theory Spec2Isabelle
  imports Main "HOL-Library.Word"
begin

unbundle bit_operations_syntax

section \<open>C strings, numbers and the libc routines that m\_sjoin.c calls\<close>

text \<open>
  A C string is modelled by the bytes before its terminating NUL, as a \<open>string\<close>.
  \<open>strcmp\<close> compares byte by byte as unsigned char; a proper prefix is smaller.
  Only the sign of its result is used by the handler, so the model returns -1, 0 or 1.
\<close>

fun strcmp :: "string \<Rightarrow> string \<Rightarrow> int" where
  "strcmp [] [] = 0"
| "strcmp [] (b # bs) = -1"
| "strcmp (a # as) [] = 1"
| "strcmp (a # as) (b # bs) =
     (if (of_char a :: nat) < of_char b then -1
      else if (of_char b :: nat) < of_char a then 1
      else strcmp as bs)"

text \<open>\<open>strlcpy(dst, src, size)\<close> keeps at most \<open>size - 1\<close> bytes of the source.\<close>

definition strlcpy :: "string \<Rightarrow> nat \<Rightarrow> string" where
  "strlcpy src sz = take (sz - 1) src"

definition isspace :: "char \<Rightarrow> bool" where
  "isspace c = (c = CHR '' '' \<or> (9 \<le> (of_char c :: nat) \<and> (of_char c :: nat) \<le> 13))"

definition isdigit :: "char \<Rightarrow> bool" where
  "isdigit c = (48 \<le> (of_char c :: nat) \<and> (of_char c :: nat) \<le> 57)"

definition digit_val :: "char \<Rightarrow> nat" where
  "digit_val c = (of_char c :: nat) - 48"

definition digits_val :: "string \<Rightarrow> nat" where
  "digits_val ds = foldl (\<lambda>acc c. acc * 10 + digit_val c) 0 ds"

text \<open>
  The sign and digit prefix that \<open>strtoumax\<close> and \<open>atoi\<close> read: white space is skipped,
  one optional sign is taken, then the longest run of decimal digits.
\<close>

definition scan_number :: "string \<Rightarrow> bool \<times> nat" where
  "scan_number s =
     (let s1 = dropWhile isspace s;
          neg = (s1 \<noteq> [] \<and> hd s1 = CHR ''-'');
          s2 = (if s1 \<noteq> [] \<and> (hd s1 = CHR ''-'' \<or> hd s1 = CHR ''+'') then tl s1 else s1)
      in (neg, digits_val (takeWhile isdigit s2)))"

text \<open>
  \<open>strtoumax(s, NULL, 10)\<close> with a 64-bit \<open>uintmax_t\<close>: a value that does not fit is
  \<open>UINTMAX_MAX\<close>, a minus sign negates in the unsigned type.
\<close>

definition strtoumax :: "string \<Rightarrow> 64 word" where
  "strtoumax s =
     (case scan_number s of (neg, n) \<Rightarrow>
        if 2 ^ 64 \<le> n then - 1
        else if neg then - (of_nat n) else of_nat n)"

text \<open>
  \<open>atoi\<close> stored into the \<open>unsigned int limit\<close> of \<open>struct Mode\<close>: the conversion to
  unsigned is reduction modulo \<open>2 ^ 32\<close>. (A value outside the range of \<open>int\<close> is undefined
  in C; the model reduces it the same way.)
\<close>

definition atoi :: "string \<Rightarrow> 32 word" where
  "atoi s = (case scan_number s of (neg, n) \<Rightarrow> if neg then - (of_nat n) else of_nat n)"

text \<open>Decimal output, as \<open>%u\<close> and \<open>%ju\<close> print an unsigned number.\<close>

definition digit_char :: "nat \<Rightarrow> char" where
  "digit_char d = char_of (48 + d)"

function decimal :: "nat \<Rightarrow> string" where
  "decimal n = (if n < 10 then [digit_char n] else decimal (n div 10) @ [digit_char (n mod 10)])"
  by pat_completeness auto
termination
  by (relation "measure id") auto

declare decimal.simps [simp del]

text \<open>The words of a parameter string: maximal runs of bytes other than the blank.\<close>

function words :: "string \<Rightarrow> string list" where
  "words s =
     (let s1 = dropWhile (\<lambda>c. c = CHR '' '') s
      in if s1 = [] then []
         else takeWhile (\<lambda>c. c \<noteq> CHR '' '') s1 # words (dropWhile (\<lambda>c. c \<noteq> CHR '' '') s1))"
  by pat_completeness auto
termination
proof (relation "measure length")
  show "wf (measure length)" by simp
next
  fix s s1 :: string
  assume a: "s1 = dropWhile (\<lambda>c. c = CHR '' '') s" and b: "s1 \<noteq> []"
  have "\<not> (hd s1 = CHR '' '')"
    using a b hd_dropWhile [of "\<lambda>c. c = CHR '' ''" s] by simp
  then have "dropWhile (\<lambda>c. c \<noteq> CHR '' '') s1 = dropWhile (\<lambda>c. c \<noteq> CHR '' '') (tl s1)"
    using b by (cases s1) auto
  then have "length (dropWhile (\<lambda>c. c \<noteq> CHR '' '') s1) \<le> length (tl s1)"
    using length_dropWhile_le [of "\<lambda>c. c \<noteq> CHR '' ''" "tl s1"] by simp
  also have "\<dots> < length s1" using b by (cases s1) auto
  also have "\<dots> \<le> length s" using a by (simp add: length_dropWhile_le)
  finally show "(dropWhile (\<lambda>c. c \<noteq> CHR '' '') s1, s) \<in> measure length" by simp
qed

declare words.simps [simp del]

section \<open>Channel modes (struct Mode, struct chan\_mode)\<close>

text \<open>
  \<open>struct Mode\<close> has the flag word \<open>mode\<close>, the member limit \<open>limit\<close> (both
  \<open>unsigned int\<close>) and the key, a NUL-terminated string in \<open>char key[KEYLEN + 1]\<close>.
\<close>

record Mode =
  mode :: "32 word"
  limit :: "32 word"
  key :: string

text \<open>
  One entry of \<open>cmode_tab\<close>: the mode letter and its flag mask. The table is declared in
  channel\_mode.c, which is not part of the sources at hand, so it is a parameter; the
  list holds the entries before the terminating entry whose letter is NUL.
  \<open>cmode_map[c]\<close> is the entry of letter \<open>c\<close>, or NULL.
\<close>

record chan_mode =
  letter :: char
  cmode :: "32 word"

definition cmode_map :: "chan_mode list \<Rightarrow> char \<Rightarrow> chan_mode option" where
  "cmode_map tab c = find (\<lambda>t. letter t = c) tab"

subsection \<open>set\_final\_mode\<close>

text \<open>
  \<open>set_final_mode(mode, oldmode, mbuf, pbuf)\<close> writes the letters of the change from
  \<open>oldmode\<close> to \<open>mode\<close> to \<open>mbuf\<close> and the parameters to \<open>pbuf\<close>. Both buffers are
  zero-filled arrays when ms\_sjoin calls it and every write goes to the next free byte,
  so each buffer is modelled by the string written so far; \<open>*(mbuf - 1)\<close> is the last
  byte written.
\<close>

definition removed_letters :: "chan_mode list \<Rightarrow> Mode \<Rightarrow> Mode \<Rightarrow> string" where
  "removed_letters tab md oldmode =
     map letter (filter (\<lambda>t. cmode t \<noteq> 0 \<and> cmode t AND mode oldmode \<noteq> 0
                               \<and> cmode t AND mode md = 0) tab)"

definition added_letters :: "chan_mode list \<Rightarrow> Mode \<Rightarrow> Mode \<Rightarrow> string" where
  "added_letters tab md oldmode =
     map letter (filter (\<lambda>t. cmode t \<noteq> 0 \<and> cmode t AND mode md \<noteq> 0
                               \<and> cmode t AND mode oldmode = 0) tab)"

definition set_final_mode :: "chan_mode list \<Rightarrow> Mode \<Rightarrow> Mode \<Rightarrow> string \<times> string" where
  "set_final_mode tab md oldmode =
     (let mbuf1 = ''-'' @ removed_letters tab md oldmode;
          mbuf2 = (if limit oldmode \<noteq> 0 \<and> limit md = 0 then mbuf1 @ ''l'' else mbuf1);
          rk = (key oldmode \<noteq> [] \<and> key md = []);
          mbuf3 = (if rk then mbuf2 @ ''k'' else mbuf2);
          pbuf3 = (if rk then key oldmode @ '' '' else []);
          mbuf4 = (if last mbuf3 = CHR ''-'' then butlast mbuf3 @ ''+'' else mbuf3 @ ''+'');
          mbuf5 = mbuf4 @ added_letters tab md oldmode;
          al = (limit md \<noteq> 0 \<and> limit oldmode \<noteq> limit md);
          mbuf6 = (if al then mbuf5 @ ''l'' else mbuf5);
          pbuf6 = (if al then pbuf3 @ decimal (unat (limit md)) @ '' '' else pbuf3);
          ak = (key md \<noteq> [] \<and> strcmp (key oldmode) (key md) \<noteq> 0);
          mbuf7 = (if ak then mbuf6 @ ''k'' else mbuf6);
          pbuf7 = (if ak then pbuf6 @ key md @ '' '' else pbuf6);
          mbuf8 = (if last mbuf7 = CHR ''+'' then butlast mbuf7 else mbuf7)
      in (mbuf8, pbuf7))"

text \<open>
  Modelled from the spec: the routine that applies a mode change line to a channel mode
  (channel\_mode.c) is not among the sources. Following sections 4.2 and 6 of the
  specification, the letters are read left to right; \<open>-\<close> and \<open>+\<close> switch the
  direction; \<open>l\<close> (when added) and \<open>k\<close> (both ways) consume the next parameter; any other
  letter sets or clears the flag of its table entry; parameters are the blank-separated
  words of the parameter string.
\<close>

fun apply_delta :: "chan_mode list \<Rightarrow> bool \<Rightarrow> string \<Rightarrow> string list \<Rightarrow> Mode \<Rightarrow> Mode" where
  "apply_delta tab adding [] ps m = m"
| "apply_delta tab adding (c # cs) ps m =
     (if c = CHR ''+'' then apply_delta tab True cs ps m
      else if c = CHR ''-'' then apply_delta tab False cs ps m
      else if c = CHR ''l'' then
        (if adding then
           (case ps of [] \<Rightarrow> m
            | p # ps' \<Rightarrow> apply_delta tab adding cs ps' (m\<lparr>limit := atoi p\<rparr>))
         else apply_delta tab adding cs ps (m\<lparr>limit := 0\<rparr>))
      else if c = CHR ''k'' then
        (case ps of [] \<Rightarrow> m
         | p # ps' \<Rightarrow> apply_delta tab adding cs ps' (m\<lparr>key := (if adding then p else [])\<rparr>))
      else
        (case cmode_map tab c of
           None \<Rightarrow> apply_delta tab adding cs ps m
         | Some t \<Rightarrow>
             apply_delta tab adding cs ps
               (m\<lparr>mode := (if adding then mode m OR cmode t else mode m AND NOT (cmode t))\<rparr>)))"

definition apply_change :: "chan_mode list \<Rightarrow> string \<times> string \<Rightarrow> Mode \<Rightarrow> Mode" where
  "apply_change tab d m = apply_delta tab True (fst d) (words (snd d)) m"

section \<open>Clients, channels and the server's configuration\<close>

text \<open>
  The flag word of a \<open>struct Membership\<close> is an \<open>unsigned int\<close> whose bits are the
  \<open>CHFL_\<close> macros of channel.h. That header is not among the sources; each macro is one
  distinct bit, so the word is modelled as the set of the flags that are on:
  \<open>fl |= F\<close> is \<open>insert F fl\<close>, \<open>flags &= ~F\<close> is \<open>flags - {F}\<close>, and
  \<open>(flags & F) == 0\<close> is \<open>F \<notin> flags\<close>.
\<close>

datatype chfl = CHFL_CHANOP | CHFL_HALFOP | CHFL_VOICE | CHFL_BAN_CHECKED | CHFL_BAN_SILENCED

text \<open>
  The fields of \<open>struct Client\<close> that the handler reads. \<open>cl_from\<close> stands for the
  pointer \<open>from\<close> (the directly connected link a client is reached through) and is the
  name of that link; two \<open>from\<close> pointers are equal when the names are.
\<close>

record Client =
  cl_name :: string
  cl_id :: string
  username :: string
  host :: string
  account :: string
  info :: string
  away :: string
  cl_from :: string
  is_server :: bool
  hidden :: bool
  my_connect :: bool

record Membership =
  client_p :: Client
  flags :: "chfl set"

record Ban =
  ban_name :: string
  ban_user :: string
  ban_host :: string
  ban_len :: nat

record Channel =
  ch_name :: string
  creationtime :: "64 word"
  chmode :: Mode
  members :: "Membership list"
  banlist :: "Ban list"
  exceptlist :: "Ban list"
  invexlist :: "Ban list"
  invites :: "string list"
  topic :: string
  topic_info :: string
  topic_time :: "64 word"

text \<open>
  Constants, tables and configuration items that m\_sjoin.c uses and other files declare
  (ircd\_defs.h, channel.h, channel\_mode.c, conf.h, ircd.h). None of them is among the
  sources, so they are parameters of the model. \<open>channel_check_name\<close> is the result of
  \<open>channel_check_name(name, false)\<close>; \<open>CurrentTime\<close> is the clock that a channel
  made by \<open>channel_make\<close> starts with.
\<close>

record Env =
  IRCD_BUFSIZE :: nat
  IDLEN :: nat
  CHANNELLEN :: nat
  KEYLEN :: nat
  MAXMODEPARAMS :: nat
  CMEMBER_STATUS_FLAGS_LEN :: nat
  cmode_tab :: "chan_mode list"
  ignore_bogus_ts :: bool
  hide_servers :: bool
  me_name :: string
  CurrentTime :: "64 word"
  channel_check_name :: "string \<Rightarrow> bool"

text \<open>
  The state outside the handler: the channel hash and the client directory.

  Modelled from the spec: \<open>hash_find_channel\<close>, \<open>channel_make\<close>, \<open>channel_free\<close> and
  \<open>find_person\<close> are not among the sources. The channel store finds a channel by its
  name without regard to letter case, so the store is a map from the folded name; a
  channel made on first reference has its (bounded) name, the clock as creation time, an
  empty mode, no members and empty lists; the directory resolves an id or nickname to a
  user or to nothing.
\<close>

record World =
  channels :: "string \<rightharpoonup> Channel"
  clients :: "string \<rightharpoonup> Client"

definition ToLower :: "char \<Rightarrow> char" where
  "ToLower c = (if 65 \<le> (of_char c :: nat) \<and> (of_char c :: nat) \<le> 90
                then char_of ((of_char c :: nat) + 32) else c)"

definition hash_key :: "string \<Rightarrow> string" where
  "hash_key nm = map ToLower nm"

definition hash_find_channel :: "World \<Rightarrow> string \<Rightarrow> Channel option" where
  "hash_find_channel W nm = channels W (hash_key nm)"

definition empty_mode :: Mode where
  "empty_mode = \<lparr>mode = 0, limit = 0, key = []\<rparr>"

definition channel_make :: "Env \<Rightarrow> string \<Rightarrow> Channel" where
  "channel_make E nm =
     \<lparr>ch_name = strlcpy nm (CHANNELLEN E + 1), creationtime = CurrentTime E,
      chmode = empty_mode, members = [], banlist = [], exceptlist = [], invexlist = [],
      invites = [], topic = [], topic_info = [], topic_time = 0\<rparr>"

definition find_person :: "World \<Rightarrow> string \<Rightarrow> Client option" where
  "find_person W s = clients W s"

definition IsMember :: "Client \<Rightarrow> Channel \<Rightarrow> bool" where
  "IsMember who chptr = (\<exists>m \<in> set (members chptr). client_p m = who)"

text \<open>
  Modelled from the spec: \<open>add_user_to_channel\<close>, \<open>clear_ban_cache_list\<close>,
  \<open>clear_invite_list\<close>, \<open>channel_set_topic\<close> and \<open>channel_modes\<close> are not among the
  sources. A new membership holds the user and the resolved flags and is linked at the
  head of the member list; the ban cache of a member is its two \<open>CHFL_BAN_\<close> flags, and
  \<open>members_local\<close> holds the members that are connected to this server; the full mode
  string lists every set flag of the table, then the limit if non-zero, then the key if
  non-empty, with their parameters in that order.
\<close>

definition add_user_to_channel :: "Channel \<Rightarrow> Client \<Rightarrow> chfl set \<Rightarrow> Channel" where
  "add_user_to_channel chptr who fl =
     chptr\<lparr>members := \<lparr>client_p = who, flags = fl\<rparr> # members chptr\<rparr>"

definition clear_ban_cache_list :: "Membership list \<Rightarrow> Membership list" where
  "clear_ban_cache_list ms =
     map (\<lambda>m. if my_connect (client_p m)
               then m\<lparr>flags := flags m - {CHFL_BAN_CHECKED, CHFL_BAN_SILENCED}\<rparr> else m) ms"

definition channel_set_topic :: "Channel \<Rightarrow> string \<Rightarrow> string \<Rightarrow> 64 word \<Rightarrow> Channel" where
  "channel_set_topic chptr t ti tt = chptr\<lparr>topic := t, topic_info := ti, topic_time := tt\<rparr>"

definition channel_modes :: "chan_mode list \<Rightarrow> Mode \<Rightarrow> string \<times> string" where
  "channel_modes tab md =
     (let mbuf1 = ''+'' @ map letter (filter (\<lambda>t. cmode t \<noteq> 0 \<and> cmode t AND mode md \<noteq> 0) tab);
          mbuf2 = (if limit md \<noteq> 0 then mbuf1 @ ''l'' else mbuf1);
          pbuf2 = (if limit md \<noteq> 0 then decimal (unat (limit md)) @ '' '' else []);
          mbuf3 = (if key md \<noteq> [] then mbuf2 @ ''k'' else mbuf2);
          pbuf3 = (if key md \<noteq> [] then pbuf2 @ key md @ '' '' else pbuf2)
      in (mbuf3, pbuf3))"

section \<open>What the handler sends\<close>

text \<open>
  Every call of a send routine is recorded with the finished line:
  \<open>sendto_realops_flags(flag, L_ALL, SEND_NOTICE, ...)\<close> as \<open>Realops\<close>,
  \<open>sendto_channel_local(one, chptr, 0, poscap, negcap, ...)\<close> as \<open>ChannelLocal\<close> (with the
  excluded client and the two capability filters), and \<open>sendto_server(source_p, 0, 0, ...)\<close>,
  which goes to every linked server but the one the message came from, as \<open>Server\<close>.
  No other send routine is called, so nothing is ever addressed to the originating link.
\<close>

datatype umode = UMODE_DEBUG | UMODE_SERVNOTICE

datatype cap = CAP_EXTENDED_JOIN | CAP_AWAY_NOTIFY

datatype out =
    Realops umode string
  | ChannelLocal "Client option" "cap option" "cap option" string
  | Server string

definition servername :: "Env \<Rightarrow> Client \<Rightarrow> string" where
  "servername E source_p =
     (if hide_servers E \<or> hidden source_p then me_name E else cl_name source_p)"

text \<open>The format \<open>":%s MODE %s %s%s"\<close> with the parameters each printed as \<open>" %s"\<close>.\<close>

definition sendbuf_of :: "string list \<Rightarrow> string" where
  "sendbuf_of para = concat (map (\<lambda>p. '' '' @ p) para)"

definition mode_line :: "string \<Rightarrow> string \<Rightarrow> string \<Rightarrow> string list \<Rightarrow> string" where
  "mode_line origin chname mbuf para =
     '':'' @ origin @ '' MODE '' @ chname @ '' '' @ mbuf @ sendbuf_of para"

section \<open>remove\_a\_mode and remove\_our\_modes\<close>

text \<open>
  The loop of \<open>remove_a_mode\<close> over the member list. The state is the letters written to
  \<open>lmodebuf\<close> (it starts as \<open>-\<close>), the names in \<open>lpara[0..count-1]\<close> and the lines sent;
  the members are returned with the flag cleared.
\<close>

fun remove_a_mode_loop ::
  "Env \<Rightarrow> string \<Rightarrow> string \<Rightarrow> chfl \<Rightarrow> char \<Rightarrow> Membership list \<Rightarrow>
   string \<times> string list \<times> out list \<Rightarrow> Membership list \<times> string \<times> string list \<times> out list" where
  "remove_a_mode_loop E origin chname msk flag [] st = ([], st)"
| "remove_a_mode_loop E origin chname msk flag (member # rest) (lmodebuf, lpara, outs) =
     (if msk \<notin> flags member then
        (case remove_a_mode_loop E origin chname msk flag rest (lmodebuf, lpara, outs) of
           (ms, st') \<Rightarrow> (member # ms, st'))
      else
        (let member' = member\<lparr>flags := flags member - {msk}\<rparr>;
             lpara' = lpara @ [cl_name (client_p member)];
             lmodebuf' = lmodebuf @ [flag];
             st' = (if MAXMODEPARAMS E \<le> length lpara'
                    then (''-'', [], outs @ [ChannelLocal None None None
                            (mode_line origin chname lmodebuf' (take (MAXMODEPARAMS E) lpara'))])
                    else (lmodebuf', lpara', outs))
         in case remove_a_mode_loop E origin chname msk flag rest st' of
              (ms, st'') \<Rightarrow> (member' # ms, st'')))"

definition remove_a_mode :: "Env \<Rightarrow> Channel \<Rightarrow> Client \<Rightarrow> chfl \<Rightarrow> char \<Rightarrow> Channel \<times> out list" where
  "remove_a_mode E chptr source_p msk flag =
     (case remove_a_mode_loop E (servername E source_p) (ch_name chptr) msk flag
             (members chptr) (''-'', [], []) of
        (ms, lmodebuf, lpara, outs) \<Rightarrow>
          (chptr\<lparr>members := ms\<rparr>,
           if lpara \<noteq> []
           then outs @ [ChannelLocal None None None
                          (mode_line (servername E source_p) (ch_name chptr) lmodebuf lpara)]
           else outs))"

definition remove_our_modes :: "Env \<Rightarrow> Channel \<Rightarrow> Client \<Rightarrow> Channel \<times> out list" where
  "remove_our_modes E chptr source_p =
     (case remove_a_mode E chptr source_p CHFL_CHANOP (CHR ''o'') of (c1, o1) \<Rightarrow>
      case remove_a_mode E c1 source_p CHFL_HALFOP (CHR ''h'') of (c2, o2) \<Rightarrow>
      case remove_a_mode E c2 source_p CHFL_VOICE (CHR ''v'') of (c3, o3) \<Rightarrow>
        (c3, o1 @ o2 @ o3))"

section \<open>remove\_ban\_list\<close>

text \<open>
  The state of the loop of \<open>remove_ban_list\<close>: the letters written to \<open>modebuf\<close> after the
  prefix of length \<open>mlen\<close>, the parameters written to \<open>parabuf\<close>, \<open>count\<close>, \<open>cur_len\<close>
  and the lines sent. Each turn of the loop unlinks its entry from the list
  (\<open>remove_ban\<close>), so the list that is left after the loop is what the recursion has not
  reached. When a line is sent, \<open>*(pbuf - 1) = '\0'\<close> drops the last byte of \<open>parabuf\<close>.
  (With nothing in \<open>parabuf\<close> that write would fall before the array; the model drops
  nothing then.)
\<close>

record rbl_state =
  rb_letters :: string
  rb_parabuf :: string
  rb_count :: nat
  rb_cur_len :: nat
  rb_out :: "out list"

definition ban_mask :: "Ban \<Rightarrow> string" where
  "ban_mask ban = ban_name ban @ ''!'' @ ban_user ban @ ''@'' @ ban_host ban @ '' ''"

definition rbl_line :: "string \<Rightarrow> string \<Rightarrow> string \<Rightarrow> string" where
  "rbl_line prefix letters parabuf = prefix @ letters @ '' '' @ butlast parabuf"

fun remove_ban_loop :: "Env \<Rightarrow> string \<Rightarrow> char \<Rightarrow> Ban list \<Rightarrow> rbl_state \<Rightarrow> Ban list \<times> rbl_state" where
  "remove_ban_loop E prefix c [] st = ([], st)"
| "remove_ban_loop E prefix c (ban # rest) st =
     (let plen = ban_len ban + 4;
          st1 = (if MAXMODEPARAMS E \<le> rb_count st
                    \<or> IRCD_BUFSIZE E < rb_cur_len st + 1 + (plen - 1) + 2
                 then st\<lparr>rb_out := rb_out st @
                            [ChannelLocal None None None
                               (rbl_line prefix (rb_letters st) (rb_parabuf st))],
                         rb_cur_len := length prefix, rb_letters := [], rb_parabuf := [],
                         rb_count := 0\<rparr>
                 else st);
          st2 = st1\<lparr>rb_letters := rb_letters st1 @ [c],
                    rb_cur_len := rb_cur_len st1 + plen,
                    rb_parabuf := rb_parabuf st1 @ ban_mask ban,
                    rb_count := rb_count st1 + 1\<rparr>
      in remove_ban_loop E prefix c rest st2)"

definition remove_ban_list ::
  "Env \<Rightarrow> Channel \<Rightarrow> Client \<Rightarrow> Ban list \<Rightarrow> char \<Rightarrow> Ban list \<times> out list" where
  "remove_ban_list E chptr source_p lst c =
     (if length lst = 0 then (lst, [])
      else
        (let prefix = '':'' @ cl_name source_p @ '' MODE '' @ ch_name chptr @ '' -''
         in case remove_ban_loop E prefix c lst
                   \<lparr>rb_letters = [], rb_parabuf = [], rb_count = 0,
                    rb_cur_len = length prefix, rb_out = []\<rparr> of
              (left, st) \<Rightarrow>
                (left, rb_out st @ [ChannelLocal None None None
                                      (rbl_line prefix (rb_letters st) (rb_parabuf st))])))"

section \<open>ms\_sjoin\<close>

subsection \<open>The mode letters of the message\<close>

text \<open>
  The loop over \<open>parv[3]\<close>. \<open>parc\<close> is the length of \<open>parv\<close>. A \<open>k\<close> or \<open>l\<close> reads
  \<open>parv[4 + args]\<close>, counts it, and gives up (\<open>return 0\<close>, here \<open>None\<close>) when
  \<open>parc < 5 + args\<close>. The command table demands at least 5 parameters, and every earlier
  \<open>k\<close> or \<open>l\<close> has checked \<open>parc\<close>, so the read is within \<open>parv\<close>.
\<close>

fun parse_modes :: "Env \<Rightarrow> string list \<Rightarrow> string \<Rightarrow> Mode \<Rightarrow> nat \<Rightarrow> (Mode \<times> nat) option" where
  "parse_modes E parv [] md args = Some (md, args)"
| "parse_modes E parv (c # cs) md args =
     (if c = CHR ''k'' then
        (if length parv < 5 + (args + 1) then None
         else parse_modes E parv cs
                (md\<lparr>key := strlcpy (parv ! (4 + args)) (KEYLEN E + 1)\<rparr>) (args + 1))
      else if c = CHR ''l'' then
        (if length parv < 5 + (args + 1) then None
         else parse_modes E parv cs (md\<lparr>limit := atoi (parv ! (4 + args))\<rparr>) (args + 1))
      else
        (case cmode_map (cmode_tab E) c of
           None \<Rightarrow> parse_modes E parv cs md args
         | Some t \<Rightarrow> parse_modes E parv cs (md\<lparr>mode := mode md OR cmode t\<rparr>) args))"

subsection \<open>Timestamps\<close>

text \<open>
  Lines 154 to 177: with \<open>ignore_bogus_ts\<close> a timestamp below 800000000 is replaced;
  without it a change to 0 is announced. \<open>sjoin_newts\<close> is the value of \<open>newts\<close>
  afterwards, \<open>sjoin_ts_notices\<close> the notices sent.
\<close>

definition sjoin_newts :: "Env \<Rightarrow> 64 word \<Rightarrow> 64 word \<Rightarrow> 64 word" where
  "sjoin_newts E newts oldts =
     (if ignore_bogus_ts E then
        (if newts < 800000000 then (if oldts = 0 then 0 else 800000000) else newts)
      else newts)"

definition sjoin_ts_notices ::
  "Env \<Rightarrow> Client \<Rightarrow> Channel \<Rightarrow> bool \<Rightarrow> 64 word \<Rightarrow> 64 word \<Rightarrow> out list" where
  "sjoin_ts_notices E source_p chptr isnew newts oldts =
     (if ignore_bogus_ts E then
        (if newts < 800000000 then
           [Realops UMODE_DEBUG
              (''*** Bogus TS '' @ decimal (unat newts) @ '' on '' @ ch_name chptr
               @ '' ignored from '' @ cl_name source_p @ ''(via '' @ cl_from source_p @ '')'')]
         else [])
      else
        (if newts = 0 \<and> \<not> isnew \<and> oldts \<noteq> 0 then
           [ChannelLocal None None None
              ('':'' @ me_name E @ '' NOTICE '' @ ch_name chptr @ '' :*** Notice -- TS for ''
               @ ch_name chptr @ '' changed from '' @ decimal (unat oldts) @ '' to 0''),
            Realops UMODE_SERVNOTICE
              (''Server '' @ cl_name source_p @ '' changing TS on '' @ ch_name chptr
               @ '' from '' @ decimal (unat oldts) @ '' to 0'')]
         else []))"

text \<open>
  Lines 179 to 194, the arbitration: which side's modes are kept, the creation time the
  channel gets, and the timestamp sent on.
\<close>

record arb =
  keep_our_modes :: bool
  keep_new_modes :: bool
  new_creationtime :: "64 word"
  tstosend :: "64 word"

definition sjoin_arbitrate :: "bool \<Rightarrow> 64 word \<Rightarrow> 64 word \<Rightarrow> arb" where
  "sjoin_arbitrate isnew newts oldts =
     (if isnew then
        \<lparr>keep_our_modes = True, keep_new_modes = True, new_creationtime = newts, tstosend = newts\<rparr>
      else if newts = 0 \<or> oldts = 0 then
        \<lparr>keep_our_modes = True, keep_new_modes = True, new_creationtime = 0, tstosend = 0\<rparr>
      else if newts = oldts then
        \<lparr>keep_our_modes = True, keep_new_modes = True, new_creationtime = oldts, tstosend = oldts\<rparr>
      else if newts < oldts then
        \<lparr>keep_our_modes = False, keep_new_modes = True, new_creationtime = newts, tstosend = newts\<rparr>
      else
        \<lparr>keep_our_modes = True, keep_new_modes = False, new_creationtime = oldts, tstosend = oldts\<rparr>)"

text \<open>Lines 196 to 206: the mode that the channel gets.\<close>

definition sjoin_merge :: "Env \<Rightarrow> arb \<Rightarrow> Mode \<Rightarrow> Mode \<Rightarrow> Mode" where
  "sjoin_merge E a md oldmode =
     (if \<not> keep_new_modes a then oldmode
      else if keep_our_modes a then
        \<lparr>mode = mode md OR mode oldmode,
         limit = (if limit md < limit oldmode then limit oldmode else limit md),
         key = (if strcmp (key md) (key oldmode) < 0
                then strlcpy (key oldmode) (KEYLEN E + 1) else key md)\<rparr>
      else md)"

subsection \<open>The side that lost the timestamp\<close>

text \<open>Lines 212 to 240, run when \<open>keep_our_modes\<close> is false.\<close>

definition sjoin_lost_ts ::
  "Env \<Rightarrow> Client \<Rightarrow> string \<Rightarrow> bool \<Rightarrow> 64 word \<Rightarrow> 64 word \<Rightarrow> Channel \<Rightarrow> Channel \<times> out list" where
  "sjoin_lost_ts E source_p parv2 isnew oldts newts chptr =
     (let c0 = (if \<not> isnew then chptr\<lparr>ch_name := strlcpy parv2 (CHANNELLEN E + 1)\<rparr> else chptr)
      in case remove_our_modes E c0 source_p of (c1, o1) \<Rightarrow>
         case remove_ban_list E c1 source_p (banlist c1) (CHR ''b'') of (bl, o2) \<Rightarrow>
         case remove_ban_list E c1 source_p (exceptlist c1) (CHR ''e'') of (el, o3) \<Rightarrow>
         case remove_ban_list E c1 source_p (invexlist c1) (CHR ''I'') of (il, o4) \<Rightarrow>
           (let c2 = c1\<lparr>banlist := bl, exceptlist := el, invexlist := il\<rparr>;
                c3 = c2\<lparr>members := clear_ban_cache_list (members c2)\<rparr>;
                c4 = c3\<lparr>invites := []\<rparr>;
                c5 = (if topic c4 \<noteq> [] then channel_set_topic c4 [] [] 0 else c4);
                o5 = (if topic c4 \<noteq> []
                      then [ChannelLocal None None None
                              ('':'' @ servername E source_p @ '' TOPIC '' @ ch_name c4 @ '' :'')]
                      else []);
                o6 = [ChannelLocal None None None
                        ('':'' @ me_name E @ '' NOTICE '' @ ch_name c5
                         @ '' :*** Notice -- TS for '' @ ch_name c5 @ '' changed from ''
                         @ decimal (unat oldts) @ '' to '' @ decimal (unat newts))]
            in (c5, o1 @ o2 @ o3 @ o4 @ o5 @ o6)))"

subsection \<open>The buffer modebuf as an array\<close>

text \<open>
  After \<open>set_final_mode\<close> the array \<open>modebuf\<close> is used again, first for the full mode
  string and then, from line 275 on, for the letters of the privilege changes: \<open>mbuf\<close>
  points into it, and line 359 reads it as a string while it is being filled. So from
  here on \<open>modebuf\<close> is the list of its bytes (the array is zero-filled at its
  declaration, and bytes past the end of the list are zero), \<open>poke\<close> writes one byte and
  \<open>cstr\<close> reads the string up to the first NUL. Writes beyond \<open>MODEBUFLEN\<close> would be out
  of bounds in C; the handler writes at most \<open>MAXMODEPARAMS + 2\<close> bytes here.
\<close>

definition poke :: "string \<Rightarrow> nat \<Rightarrow> char \<Rightarrow> string" where
  "poke arr i c =
     (if i < length arr then arr[i := c]
      else arr @ replicate (i - length arr) (CHR 0x00) @ [c])"

definition cstr :: "string \<Rightarrow> string" where
  "cstr arr = takeWhile (\<lambda>c. c \<noteq> CHR 0x00) arr"

definition store_str :: "string \<Rightarrow> string \<Rightarrow> string" where
  "store_str arr s = s @ [CHR 0x00] @ drop (length s + 1) arr"

subsection \<open>Lines 145 to 256\<close>

text \<open>
  The channel is looked up or made, the timestamps are compared, the mode is merged and
  announced, and the losing side is cleaned. The result holds the channel, \<open>isnew\<close>, the
  arbitration, the value of \<open>newts\<close>, the bytes of \<open>modebuf\<close>, the string in
  \<open>parabuf\<close> and the lines sent.
\<close>

record sj_prep =
  p_chptr :: Channel
  p_isnew :: bool
  p_arb :: arb
  p_newts :: "64 word"
  p_modebuf :: string
  p_parabuf :: string
  p_out :: "out list"

definition sjoin_prepare :: "Env \<Rightarrow> World \<Rightarrow> Client \<Rightarrow> string list \<Rightarrow> Mode \<Rightarrow> sj_prep" where
  "sjoin_prepare E W source_p parv md0 =
     (let found = hash_find_channel W (parv ! 2);
          isnew = (found = None);
          chptr0 = (case found of None \<Rightarrow> channel_make E (parv ! 2) | Some c \<Rightarrow> c);
          oldts = creationtime chptr0;
          oldmode = chmode chptr0;
          o1 = sjoin_ts_notices E source_p chptr0 isnew (strtoumax (parv ! 1)) oldts;
          newts = sjoin_newts E (strtoumax (parv ! 1)) oldts;
          a = sjoin_arbitrate isnew newts oldts;
          chptr1 = chptr0\<lparr>creationtime := new_creationtime a\<rparr>;
          md = sjoin_merge E a md0 oldmode;
          sfm = set_final_mode (cmode_tab E) md oldmode;
          chptr2 = chptr1\<lparr>chmode := md\<rparr>;
          lost = (if \<not> keep_our_modes a
                  then sjoin_lost_ts E source_p (parv ! 2) isnew oldts newts chptr2
                  else (chptr2, []));
          chptr3 = fst lost;
          o3 = (if fst sfm \<noteq> []
                then [ChannelLocal None None None
                        ('':'' @ servername E source_p @ '' MODE '' @ ch_name chptr3
                         @ '' '' @ fst sfm @ '' '' @ snd sfm)]
                else []);
          arr0 = fst sfm @ [CHR 0x00];
          full = ((case parv ! 3 of [] \<Rightarrow> True | c # cs \<Rightarrow> c \<noteq> CHR ''0'') \<and> keep_new_modes a);
          cm = channel_modes (cmode_tab E) (chmode chptr3)
      in \<lparr>p_chptr = chptr3, p_isnew = isnew, p_arb = a, p_newts = newts,
          p_modebuf = (if full then store_str arr0 (fst cm)
                       else poke (poke arr0 0 (CHR ''0'')) 1 (CHR 0x00)),
          p_parabuf = (if full then snd cm else snd sfm),
          p_out = o1 @ snd lost @ o3\<rparr>)"

subsection \<open>The member list\<close>

text \<open>The format \<open>":%s SJOIN %ju %s %s %s:"\<close> of lines 258 and 359.\<close>

definition sjoin_header :: "Client \<Rightarrow> 64 word \<Rightarrow> Channel \<Rightarrow> string \<Rightarrow> string \<Rightarrow> string" where
  "sjoin_header source_p ts chptr modebuf parabuf =
     '':'' @ cl_id source_p @ '' SJOIN '' @ decimal (unat ts) @ '' '' @ ch_name chptr
     @ '' '' @ modebuf @ '' '' @ parabuf @ '':''"

text \<open>The \<open>do ... while\<close> loop of lines 296 to 316 over the sigils of one token.\<close>

fun strip_sigils :: "string \<Rightarrow> chfl set \<Rightarrow> chfl set \<times> string" where
  "strip_sigils [] fl = (fl, [])"
| "strip_sigils (c # cs) fl =
     (if c = CHR ''@'' then strip_sigils cs (insert CHFL_CHANOP fl)
      else if c = CHR ''%'' then strip_sigils cs (insert CHFL_HALFOP fl)
      else if c = CHR ''+'' then strip_sigils cs (insert CHFL_VOICE fl)
      else (fl, c # cs))"

definition uid_prefix_of :: "chfl set \<Rightarrow> string" where
  "uid_prefix_of fl =
     (if CHFL_CHANOP \<in> fl then ''@'' else []) @ (if CHFL_HALFOP \<in> fl then ''%'' else [])
     @ (if CHFL_VOICE \<in> fl then ''+'' else [])"

text \<open>
  The variables that the loop over the member tokens changes: the channel, the bytes of
  \<open>uid_buf\<close> up to \<open>uid_ptr\<close>, the bytes of \<open>modebuf\<close>, the offset of \<open>mbuf\<close> in it,
  \<open>para[0..pargs-1]\<close>, and the lines sent.
\<close>

record sj_state =
  sj_chptr :: Channel
  sj_uid_buf :: string
  sj_modebuf :: string
  sj_mbuf :: nat
  sj_para :: "string list"
  sj_out :: "out list"

text \<open>
  One of the three blocks of lines 385 to 472: the letter goes to \<open>*mbuf++\<close>, the name to
  \<open>para[pargs++]\<close>, and with \<open>MAXMODEPARAMS\<close> names a MODE line is sent and the buffers
  start again.
\<close>

definition sjoin_grant :: "Env \<Rightarrow> string \<Rightarrow> char \<Rightarrow> string \<Rightarrow> sj_state \<Rightarrow> sj_state" where
  "sjoin_grant E origin c nm st =
     (let mb = poke (sj_modebuf st) (sj_mbuf st) c;
          para = sj_para st @ [nm]
      in if MAXMODEPARAMS E \<le> length para then
           (let mb' = poke mb (sj_mbuf st + 1) (CHR 0x00)
            in st\<lparr>sj_out := sj_out st @
                     [ChannelLocal None None None
                        (mode_line origin (ch_name (sj_chptr st)) (cstr mb')
                           (take (MAXMODEPARAMS E) para))],
                  sj_modebuf := poke mb' 0 (CHR ''+''), sj_mbuf := 1, sj_para := []\<rparr>)
         else st\<lparr>sj_modebuf := mb, sj_mbuf := sj_mbuf st + 1, sj_para := para\<rparr>)"

definition join_lines :: "Client \<Rightarrow> Channel \<Rightarrow> out list" where
  "join_lines target_p chptr =
     [ChannelLocal None (Some CAP_EXTENDED_JOIN) None
        ('':'' @ cl_name target_p @ ''!'' @ username target_p @ ''@'' @ host target_p
         @ '' JOIN '' @ ch_name chptr @ '' '' @ account target_p @ '' :'' @ info target_p),
      ChannelLocal None None (Some CAP_EXTENDED_JOIN)
        ('':'' @ cl_name target_p @ ''!'' @ username target_p @ ''@'' @ host target_p
         @ '' JOIN :'' @ ch_name chptr)]
     @ (if away target_p \<noteq> []
        then [ChannelLocal (Some target_p) (Some CAP_AWAY_NOTIFY) None
                ('':'' @ cl_name target_p @ ''!'' @ username target_p @ ''@'' @ host target_p
                 @ '' AWAY :'' @ away target_p)]
        else [])"

text \<open>
  Lines 355 to 365: if the token does not fit, the line is sent and \<open>uid_buf\<close> starts
  again with the header, printed from \<open>modebuf\<close> as it is at that moment; then the
  token is appended with a blank.
\<close>

definition sjoin_relay ::
  "Env \<Rightarrow> Client \<Rightarrow> 64 word \<Rightarrow> string \<Rightarrow> string \<Rightarrow> Client \<Rightarrow> sj_state \<Rightarrow> sj_state" where
  "sjoin_relay E source_p ts parabuf uid_prefix target_p st =
     (let len_uid = length (cl_id target_p) + length uid_prefix;
          st1 = (if IRCD_BUFSIZE E < length (sj_uid_buf st) + len_uid + 2
                 then st\<lparr>sj_out := sj_out st @ [Server (sj_uid_buf st)],
                         sj_uid_buf := sjoin_header source_p ts (sj_chptr st)
                                         (cstr (sj_modebuf st)) parabuf\<rparr>
                 else st)
      in st1\<lparr>sj_uid_buf := sj_uid_buf st1 @ uid_prefix @ cl_id target_p @ '' ''\<rparr>)"

text \<open>Lines 367 to 383: a user who is not yet on the channel joins it.\<close>

definition sjoin_join :: "Client \<Rightarrow> chfl set \<Rightarrow> sj_state \<Rightarrow> sj_state" where
  "sjoin_join target_p fl st =
     (if \<not> IsMember target_p (sj_chptr st)
      then st\<lparr>sj_chptr := add_user_to_channel (sj_chptr st) target_p fl,
              sj_out := sj_out st @ join_lines target_p (sj_chptr st)\<rparr>
      else st)"

text \<open>Lines 385 to 472: the three blocks, for operator, half-operator and voice.\<close>

definition sjoin_grants :: "Env \<Rightarrow> string \<Rightarrow> chfl set \<Rightarrow> string \<Rightarrow> sj_state \<Rightarrow> sj_state" where
  "sjoin_grants E origin fl nm st =
     (let st4 = (if CHFL_CHANOP \<in> fl then sjoin_grant E origin (CHR ''o'') nm st else st);
          st5 = (if CHFL_HALFOP \<in> fl then sjoin_grant E origin (CHR ''h'') nm st4 else st4)
      in if CHFL_VOICE \<in> fl then sjoin_grant E origin (CHR ''v'') nm st5 else st5)"

text \<open>
  The body of the loop of lines 291 to 488 for one token. The flag \<open>have_many_uids\<close> is
  only handed to \<open>add_user_to_channel\<close> for its flood accounting and is left out.
\<close>

definition sjoin_member ::
  "Env \<Rightarrow> World \<Rightarrow> Client \<Rightarrow> bool \<Rightarrow> 64 word \<Rightarrow> string \<Rightarrow> string \<Rightarrow> sj_state \<Rightarrow> sj_state" where
  "sjoin_member E W source_p keep_new ts parabuf tok st =
     (case strip_sigils tok {} of (fl0, s) \<Rightarrow>
      case find_person W s of
        None \<Rightarrow> st
      | Some target_p \<Rightarrow>
          if cl_from target_p \<noteq> cl_from source_p then st
          else
            (let fl = (if keep_new then fl0 else {})
             in sjoin_grants E (servername E source_p) fl (cl_name target_p)
                  (sjoin_join target_p fl
                     (sjoin_relay E source_p ts parabuf (uid_prefix_of fl) target_p st))))"

text \<open>
  The tokens of the member list. Lines 278 to 289 and 474 to 487 skip blanks, cut the
  string at the next blank and go on behind it until the string ends: the loop body sees
  the blank-separated words of \<open>parv[args + 4]\<close> in order.
\<close>

fun sjoin_members ::
  "Env \<Rightarrow> World \<Rightarrow> Client \<Rightarrow> bool \<Rightarrow> 64 word \<Rightarrow> string \<Rightarrow> string list \<Rightarrow> sj_state \<Rightarrow> sj_state" where
  "sjoin_members E W source_p keep_new ts parabuf [] st = st"
| "sjoin_members E W source_p keep_new ts parabuf (tok # toks) st =
     sjoin_members E W source_p keep_new ts parabuf toks
       (sjoin_member E W source_p keep_new ts parabuf tok st)"

subsection \<open>The handler\<close>

text \<open>
  \<open>ms_sjoin(source_p, parc, parv)\<close>: the result is the state afterwards and the lines
  sent, in order. The C function changes the channel in place; the model writes the
  channel back to the store wherever the function returns. A channel that was made here
  is stored under its own (bounded) name.
\<close>

definition sjoin_store :: "World \<Rightarrow> bool \<Rightarrow> string \<Rightarrow> Channel \<Rightarrow> World" where
  "sjoin_store W isnew parv2 chptr =
     W\<lparr>channels := (channels W)
          ((if isnew then hash_key (ch_name chptr) else hash_key parv2) \<mapsto> chptr)\<rparr>"

definition channel_free :: "World \<Rightarrow> Channel \<Rightarrow> World" where
  "channel_free W chptr = W\<lparr>channels := (channels W)(hash_key (ch_name chptr) := None)\<rparr>"

text \<open>The test of line 267 on the length \<open>buflen\<close> of the first header.\<close>

definition sjoin_too_long :: "Env \<Rightarrow> Client \<Rightarrow> sj_prep \<Rightarrow> bool" where
  "sjoin_too_long E source_p pr =
     (IRCD_BUFSIZE E
        \<le> length (sjoin_header source_p (tstosend (p_arb pr)) (p_chptr pr)
                     (cstr (p_modebuf pr)) (p_parabuf pr))
          + IDLEN E + 2 + CMEMBER_STATUS_FLAGS_LEN E + 1)"

text \<open>Lines 275 to 488: the loop over the member list, from its first state.\<close>

definition sjoin_loop :: "Env \<Rightarrow> World \<Rightarrow> Client \<Rightarrow> string \<Rightarrow> sj_prep \<Rightarrow> sj_state" where
  "sjoin_loop E W source_p memberlist pr =
     sjoin_members E W source_p (keep_new_modes (p_arb pr)) (tstosend (p_arb pr))
       (p_parabuf pr) (words memberlist)
       \<lparr>sj_chptr = p_chptr pr,
        sj_uid_buf = sjoin_header source_p (tstosend (p_arb pr)) (p_chptr pr)
                       (cstr (p_modebuf pr)) (p_parabuf pr),
        sj_modebuf = poke (p_modebuf pr) 0 (CHR ''+''), sj_mbuf = 1,
        sj_para = [], sj_out = p_out pr\<rparr>"

text \<open>Lines 490 to 513: the last MODE line, if any name is left in \<open>para\<close>.\<close>

definition sjoin_last_mode :: "Env \<Rightarrow> Client \<Rightarrow> sj_state \<Rightarrow> out list" where
  "sjoin_last_mode E source_p st =
     (if sj_para st \<noteq> []
      then [ChannelLocal None None None
              (mode_line (servername E source_p) (ch_name (sj_chptr st))
                 (cstr (poke (sj_modebuf st) (sj_mbuf st) (CHR 0x00))) (sj_para st))]
      else [])"

definition sjoin_body :: "Env \<Rightarrow> World \<Rightarrow> Client \<Rightarrow> string list \<Rightarrow> Mode \<Rightarrow> nat \<Rightarrow> World \<times> out list" where
  "sjoin_body E W source_p parv md0 args =
     (let pr = sjoin_prepare E W source_p parv md0
      in if sjoin_too_long E source_p pr
         then (sjoin_store W (p_isnew pr) (parv ! 2) (p_chptr pr),
               p_out pr @ [Realops UMODE_SERVNOTICE
                            (''Long SJOIN from server: '' @ cl_name source_p
                             @ ''(via '' @ cl_from source_p @ '') (ignored)'')])
         else
           (let st = sjoin_loop E W source_p (parv ! (args + 4)) pr;
                outs = sj_out st @ sjoin_last_mode E source_p st
            in if length (members (sj_chptr st)) = 0 \<and> p_isnew pr
               then (channel_free W (sj_chptr st), outs)
               else if parv ! (args + 4) = []
               then (sjoin_store W (p_isnew pr) (parv ! 2) (sj_chptr st), outs)
               else (sjoin_store W (p_isnew pr) (parv ! 2) (sj_chptr st),
                     outs @ [Server (butlast (sj_uid_buf st))])))"

definition ms_sjoin :: "Env \<Rightarrow> World \<Rightarrow> Client \<Rightarrow> string list \<Rightarrow> World \<times> out list" where
  "ms_sjoin E W source_p parv =
     (if \<not> is_server source_p then (W, [])
      else if \<not> channel_check_name E (parv ! 2) then
        (W, [Realops UMODE_DEBUG
               (''*** Too long or invalid channel name from '' @ cl_name source_p
                @ ''(via '' @ cl_from source_p @ ''): '' @ parv ! 2)])
      else
        (case parse_modes E parv (parv ! 3) empty_mode 0 of
           None \<Rightarrow> (W, [])
         | Some (md0, args) \<Rightarrow> sjoin_body E W source_p parv md0 args))"

text \<open>
  For the statements below: the entry of the channel store for the name in the message,
  after the handler has run.
\<close>

definition sjoin_channel :: "Env \<Rightarrow> World \<Rightarrow> Client \<Rightarrow> string list \<Rightarrow> Channel option" where
  "sjoin_channel E W source_p parv = channels (fst (ms_sjoin E W source_p parv)) (hash_key (parv ! 2))"

text \<open>
  The channel as the handler leaves it: after the member loop, or as prepared when the
  handler gives up on an oversized header.
\<close>

definition sjoin_final :: "Env \<Rightarrow> World \<Rightarrow> Client \<Rightarrow> string list \<Rightarrow> Mode \<Rightarrow> nat \<Rightarrow> Channel" where
  "sjoin_final E W sp parv md0 args =
     (let pr = sjoin_prepare E W sp parv md0
      in if sjoin_too_long E sp pr then p_chptr pr
         else sj_chptr (sjoin_loop E W sp (parv ! (args + 4)) pr))"

text \<open>A membership with the operator, half-operator and voice flags taken away.\<close>

definition strip_ohv :: "Membership \<Rightarrow> Membership" where
  "strip_ohv m = m\<lparr>flags := flags m - {CHFL_CHANOP, CHFL_HALFOP, CHFL_VOICE}\<rparr>"

section \<open>Conditions on the parameters\<close>

text \<open>
  The conditions under which the statements below are made. A mode table is in order
  when its letters are distinct and every entry with a flag has exactly one bit and a
  letter other than the signs and \<open>k\<close>, \<open>l\<close>; a mode is in order for a table when
  each of its flag bits belongs to an entry and its key holds no blank.
\<close>

definition single_bit :: "32 word \<Rightarrow> bool" where
  "single_bit w = (w \<in> set (map (\<lambda>k. 2 ^ k) [0..<32]))"

definition tab_ok :: "chan_mode list \<Rightarrow> bool" where
  "tab_ok tab =
     (distinct (map letter tab) \<and>
      (\<forall>t \<in> set tab. cmode t \<noteq> 0 \<longrightarrow>
         single_bit (cmode t) \<and> letter t \<notin> {CHR ''+'', CHR ''-'', CHR ''l'', CHR ''k''}))"

definition tab_bits :: "chan_mode list \<Rightarrow> 32 word" where
  "tab_bits tab = foldr (\<lambda>t w. cmode t OR w) tab 0"

definition mode_ok :: "chan_mode list \<Rightarrow> Mode \<Rightarrow> bool" where
  "mode_ok tab m = (mode m AND NOT (tab_bits tab) = 0 \<and> CHR '' '' \<notin> set (key m))"

section \<open>Example data\<close>

text \<open>A mode table, a configuration, a linked server and two of its users.\<close>

definition ex_tab :: "chan_mode list" where
  "ex_tab =
     [\<lparr>letter = CHR ''b'', cmode = 0\<rparr>, \<lparr>letter = CHR ''i'', cmode = 0x10\<rparr>,
      \<lparr>letter = CHR ''k'', cmode = 0\<rparr>, \<lparr>letter = CHR ''l'', cmode = 0\<rparr>,
      \<lparr>letter = CHR ''m'', cmode = 0x04\<rparr>, \<lparr>letter = CHR ''n'', cmode = 0x20\<rparr>,
      \<lparr>letter = CHR ''o'', cmode = 0\<rparr>, \<lparr>letter = CHR ''s'', cmode = 0x02\<rparr>,
      \<lparr>letter = CHR ''t'', cmode = 0x08\<rparr>]"

definition ex_env :: Env where
  "ex_env =
     \<lparr>IRCD_BUFSIZE = 512, IDLEN = 12, CHANNELLEN = 50, KEYLEN = 23, MAXMODEPARAMS = 6,
      CMEMBER_STATUS_FLAGS_LEN = 3, cmode_tab = ex_tab, ignore_bogus_ts = False,
      hide_servers = False, me_name = ''irc.local'', CurrentTime = 1700000000,
      channel_check_name = (\<lambda>n. n \<noteq> [] \<and> hd n = CHR ''#'' \<and> length n \<le> 50)\<rparr>"

definition ex_server :: Client where
  "ex_server =
     \<lparr>cl_name = ''hub.net'', cl_id = ''0AB'', username = [], host = [], account = [],
      info = [], away = [], cl_from = ''hub.net'', is_server = True, hidden = False,
      my_connect = True\<rparr>"

definition ex_user :: "string \<Rightarrow> string \<Rightarrow> bool \<Rightarrow> Client" where
  "ex_user nick uid loc =
     \<lparr>cl_name = nick, cl_id = uid, username = ''u'', host = ''h'', account = ''*'',
      info = ''real'', away = [], cl_from = (if loc then nick else ''hub.net''),
      is_server = False, hidden = False, my_connect = loc\<rparr>"

definition ex_env_bogus :: Env where
  "ex_env_bogus = ex_env\<lparr>ignore_bogus_ts := True\<rparr>"

text \<open>
  A world without channels, a world in which the channel \<open>#A\<close> exists with timestamp
  2000, and an SJOIN for \<open>#a\<close> with two members.
\<close>

definition ex_world :: World where
  "ex_world =
     \<lparr>channels = Map.empty,
      clients = [''0ABAAAAAA'' \<mapsto> ex_user ''alice'' ''0ABAAAAAA'' False,
                 ''0ABAAAAAB'' \<mapsto> ex_user ''bob'' ''0ABAAAAAB'' False]\<rparr>"

definition ex_chan :: Channel where
  "ex_chan =
     \<lparr>ch_name = ''#A'', creationtime = 2000,
      chmode = \<lparr>mode = 0x28, limit = 10, key = ''b''\<rparr>,
      members = [\<lparr>client_p = ex_user ''carol'' ''1XYAAAAAC'' True,
                  flags = {CHFL_CHANOP, CHFL_BAN_CHECKED}\<rparr>],
      banlist = [\<lparr>ban_name = ''*'', ban_user = ''*'', ban_host = ''evil.example'', ban_len = 14\<rparr>,
                 \<lparr>ban_name = ''troll'', ban_user = ''*'', ban_host = ''*'', ban_len = 7\<rparr>,
                 \<lparr>ban_name = ''*'', ban_user = ''bot'', ban_host = ''*.example'', ban_len = 13\<rparr>],
      exceptlist = [], invexlist = [], invites = [''1XYAAAAAD''],
      topic = ''hello'', topic_info = ''carol'', topic_time = 1500\<rparr>"

definition ex_world_a :: World where
  "ex_world_a = ex_world\<lparr>channels := [''#a'' \<mapsto> ex_chan]\<rparr>"

definition ex_sjoin :: "string \<Rightarrow> string \<Rightarrow> string list" where
  "ex_sjoin ts modes = [''SJOIN'', ts, ''#a'', modes, ''@0ABAAAAAA +0ABAAAAAB'']"

section \<open>Strings and numbers\<close>

lemma strcmp_refl: "strcmp a a = 0"
  by (induction a) auto

lemma strcmp_eq_0D: "strcmp a b = 0 \<Longrightarrow> a = b"
  by (induction a b rule: strcmp.induct) (auto split: if_splits)

lemma digit_val_digit_char: "d < 10 \<Longrightarrow> digit_val (digit_char d) = d"
  by (simp add: digit_val_def digit_char_def)

lemma isdigit_digit_char: "d < 10 \<Longrightarrow> isdigit (digit_char d)"
  by (simp add: isdigit_def digit_char_def)

lemma digits_val_snoc: "digits_val (ds @ [c]) = digits_val ds * 10 + digit_val c"
  by (simp add: digits_val_def)

lemma decimal_nonempty: "decimal n \<noteq> []"
  by (subst decimal.simps) simp

lemma decimal_digits: "c \<in> set (decimal n) \<Longrightarrow> isdigit c"
proof (induction n arbitrary: c rule: decimal.induct)
  case (1 n)
  show ?case
  proof (cases "n < 10")
    case True
    with "1.prems" show ?thesis
      by (subst (asm) decimal.simps) (simp add: isdigit_digit_char)
  next
    case False
    with "1.prems" have "c \<in> set (decimal (n div 10)) \<or> c = digit_char (n mod 10)"
      by (subst (asm) decimal.simps) auto
    then show ?thesis
      using "1.IH" [OF False] by (auto simp: isdigit_digit_char)
  qed
qed

lemma digits_val_decimal: "digits_val (decimal n) = n"
proof (induction n rule: decimal.induct)
  case (1 n)
  show ?case
  proof (cases "n < 10")
    case True
    then show ?thesis
      by (subst decimal.simps) (simp add: digits_val_def digit_val_digit_char)
  next
    case False
    then show ?thesis
      using "1.IH" [OF False]
      by (subst decimal.simps) (simp add: digits_val_snoc digit_val_digit_char)
  qed
qed

lemma isdigit_not_space: "isdigit c \<Longrightarrow> \<not> isspace c \<and> c \<noteq> CHR ''-'' \<and> c \<noteq> CHR ''+'' \<and> c \<noteq> CHR '' ''"
  by (auto simp: isdigit_def isspace_def)

lemma scan_number_decimal: "scan_number (decimal n) = (False, n)"
proof -
  define s where "s = decimal n"
  have ne: "s \<noteq> []" by (simp add: s_def decimal_nonempty)
  have all: "\<forall>x \<in> set s. isdigit x" using decimal_digits [of _ n] by (auto simp: s_def)
  have hd: "isdigit (hd s)" using ne all by (cases s) auto
  have tw: "takeWhile isdigit s = s"
    using all by (simp only: takeWhile_eq_all_conv)
  have dw: "dropWhile isspace s = s"
    using ne hd isdigit_not_space [of "hd s"] by (cases s) auto
  have "scan_number s = (False, digits_val s)"
    using isdigit_not_space [OF hd] ne by (simp add: scan_number_def Let_def dw tw)
  then show ?thesis
    by (simp add: s_def digits_val_decimal)
qed

lemma atoi_decimal: "atoi (decimal (unat w)) = w"
  by (simp add: atoi_def scan_number_decimal)

lemma words_Nil: "words [] = []"
  by (subst words.simps) simp

lemma words_blank: "words (CHR '' '' # s) = words s"
  by (subst words.simps, subst (2) words.simps) simp

lemma words_word:
  assumes "w \<noteq> []" "CHR '' '' \<notin> set w"
  shows "words (w @ CHR '' '' # rest) = w # words rest"
proof -
  obtain c cs where w: "w = c # cs" using assms(1) by (cases w) auto
  have c: "c \<noteq> CHR '' ''" using assms(2) w by auto
  have all: "\<forall>x \<in> set w. x \<noteq> CHR '' ''" using assms(2) by auto
  have d1: "dropWhile (\<lambda>c. c = CHR '' '') (w @ CHR '' '' # rest) = w @ CHR '' '' # rest"
    using c w by simp
  have t: "takeWhile (\<lambda>c. c \<noteq> CHR '' '') (w @ CHR '' '' # rest) = w"
    using all by (simp add: takeWhile_tail)
  have d2: "dropWhile (\<lambda>c. c \<noteq> CHR '' '') (w @ CHR '' '' # rest) = CHR '' '' # rest"
    using all by (simp add: dropWhile_append2)
  have ne: "w @ CHR '' '' # rest \<noteq> []" by simp
  show ?thesis
    unfolding words.simps [of "w @ CHR '' '' # rest"] Let_def d1 t d2
    using ne by (simp only: if_False words_blank)
qed

section \<open>The mode change of set\_final\_mode\<close>

lemma cmode_map_entry:
  "distinct (map letter tab) \<Longrightarrow> t \<in> set tab \<Longrightarrow> cmode_map tab (letter t) = Some t"
  unfolding cmode_map_def by (induction tab) (auto simp: image_iff)

lemma apply_delta_trailing_plus:
  "apply_delta tab a (cs @ ''+'') ps m = apply_delta tab a cs ps m"
  by (induction tab a cs ps m rule: apply_delta.induct) (auto split: list.splits option.splits)

lemma apply_delta_flags:
  assumes "distinct (map letter tab)" "set ts \<subseteq> set tab"
    "\<forall>t \<in> set ts. letter t \<notin> {CHR ''+'', CHR ''-'', CHR ''l'', CHR ''k''}"
  shows "apply_delta tab a (map letter ts @ rest) ps m =
         apply_delta tab a rest ps
           (m\<lparr>mode := foldl (\<lambda>w t. if a then w OR cmode t else w AND NOT (cmode t)) (mode m) ts\<rparr>)"
  using assms
proof (induction ts arbitrary: m)
  case Nil
  then show ?case by simp
next
  case (Cons t ts)
  have e: "cmode_map tab (letter t) = Some t"
    using Cons.prems cmode_map_entry [of tab t] by simp
  show ?case
    using Cons.prems Cons.IH e by simp
qed

lemma bit_foldl_or:
  "bit (foldl (\<lambda>w t. w OR cmode t) w ts) n \<longleftrightarrow> bit w n \<or> (\<exists>t \<in> set ts. bit (cmode t) n)"
  by (induction ts arbitrary: w) (auto simp: bit_or_iff)

lemma bit_foldl_andnot:
  "bit (foldl (\<lambda>w t. w AND NOT (cmode t)) w ts) n \<longleftrightarrow> bit w n \<and> (\<forall>t \<in> set ts. \<not> bit (cmode t) n)"
  by (induction ts arbitrary: w) (auto simp: bit_and_iff bit_not_iff dest: bit_imp_possible_bit)

lemma bit_tab_bits: "bit (tab_bits tab) n \<longleftrightarrow> (\<exists>t \<in> set tab. bit (cmode t) n)"
  unfolding tab_bits_def by (induction tab) (auto simp: bit_or_iff)

lemma recognized_bit:
  assumes "m AND NOT (tab_bits tab) = 0" "bit m n"
  shows "\<exists>t \<in> set tab. bit (cmode t) n"
proof (rule ccontr)
  assume "\<not> ?thesis"
  then have "\<not> bit (tab_bits tab) n" by (simp add: bit_tab_bits)
  then have "bit (m AND NOT (tab_bits tab)) n"
    using assms(2) by (auto simp: bit_and_iff bit_not_iff dest: bit_imp_possible_bit)
  then show False using assms(1) by simp
qed

lemma single_bit_and: "single_bit c \<Longrightarrow> bit c n \<Longrightarrow> (c AND m = 0) = (\<not> bit m n)"
  unfolding single_bit_def
  by (auto simp: bit_exp_iff and.commute [of _ m] and_exp_eq_0_iff_not_bit simp del: upt_Suc)

lemma merged_bits:
  assumes ok: "\<forall>t \<in> set tab. cmode t \<noteq> 0 \<longrightarrow> single_bit (cmode t)"
    and ro: "old AND NOT (tab_bits tab) = 0" and rn: "new AND NOT (tab_bits tab) = 0"
  shows "foldl (\<lambda>w t. w OR cmode t)
           (foldl (\<lambda>w t. w AND NOT (cmode t)) old
              (filter (\<lambda>t. cmode t \<noteq> 0 \<and> cmode t AND old \<noteq> 0 \<and> cmode t AND new = 0) tab))
           (filter (\<lambda>t. cmode t \<noteq> 0 \<and> cmode t AND new \<noteq> 0 \<and> cmode t AND old = 0) tab)
         = new"
proof (rule bit_word_eqI)
  fix n
  assume "n < LENGTH(32)"
  have sb: "\<And>t m. t \<in> set tab \<Longrightarrow> bit (cmode t) n \<Longrightarrow> (cmode t AND m = 0) = (\<not> bit m n)"
  proof -
    fix t m assume t: "t \<in> set tab" and b: "bit (cmode t) n"
    then have "cmode t \<noteq> 0" by auto
    then show "(cmode t AND m = 0) = (\<not> bit m n)"
      using ok t b single_bit_and by blast
  qed
  have nz: "\<And>t. bit (cmode t) n \<Longrightarrow> cmode t \<noteq> 0" by auto
  show "bit (foldl (\<lambda>w t. w OR cmode t)
           (foldl (\<lambda>w t. w AND NOT (cmode t)) old
              (filter (\<lambda>t. cmode t \<noteq> 0 \<and> cmode t AND old \<noteq> 0 \<and> cmode t AND new = 0) tab))
           (filter (\<lambda>t. cmode t \<noteq> 0 \<and> cmode t AND new \<noteq> 0 \<and> cmode t AND old = 0) tab)) n
        = bit new n"
  proof (cases "bit new n")
    case True
    then obtain t where t: "t \<in> set tab" "bit (cmode t) n"
      using recognized_bit [OF rn] by blast
    show ?thesis
      using True t sb [OF t] nz [OF t(2)]
      unfolding bit_foldl_or bit_foldl_andnot
      by (cases "bit old n") (auto simp: sb)
  next
    case False
    show ?thesis
    proof (cases "bit old n")
      case True
      then obtain t where t: "t \<in> set tab" "bit (cmode t) n"
        using recognized_bit [OF ro] by blast
      show ?thesis
        using True False t sb [OF t] nz [OF t(2)]
        unfolding bit_foldl_or bit_foldl_andnot
        by (auto simp: sb)
    next
      case o: False
      show ?thesis
        using False o
        unfolding bit_foldl_or bit_foldl_andnot
        by (auto simp: sb)
    qed
  qed
qed

lemma set_final_mode_same: "set_final_mode tab M M = ([], [])"
  by (simp add: set_final_mode_def removed_letters_def added_letters_def Let_def strcmp_refl)

lemma last_letters:
  assumes "\<forall>t \<in> set ts. letter t \<noteq> c" 
  shows "last (x # map letter ts @ (if p then ''l'' else []) @ (if q then ''k'' else [])) = c
         \<longleftrightarrow> (x = c \<and> ts = [] \<and> \<not> p \<and> \<not> q) \<or> (c = CHR ''l'' \<and> p \<and> \<not> q) \<or> (c = CHR ''k'' \<and> q)"
  using assms by (cases ts rule: rev_cases) (auto simp: last_append)

lemma set_final_mode_applied:
  assumes tab: "tab_ok tab" and o: "mode_ok tab old" and n: "mode_ok tab new"
  shows "apply_change tab (set_final_mode tab new old) old = new"
proof -
  define R where "R = filter (\<lambda>t. cmode t \<noteq> 0 \<and> cmode t AND mode old \<noteq> 0 \<and> cmode t AND mode new = 0) tab"
  define A where "A = filter (\<lambda>t. cmode t \<noteq> 0 \<and> cmode t AND mode new \<noteq> 0 \<and> cmode t AND mode old = 0) tab"
  define rl where "rl = (limit old \<noteq> 0 \<and> limit new = 0)"
  define rk where "rk = (key old \<noteq> [] \<and> key new = [])"
  define al where "al = (limit new \<noteq> 0 \<and> limit old \<noteq> limit new)"
  define ak where "ak = (key new \<noteq> [] \<and> strcmp (key old) (key new) \<noteq> 0)"
  define X where "X = map letter R @ (if rl then ''l'' else []) @ (if rk then ''k'' else [])"
  define Y where "Y = map letter A @ (if al then ''l'' else []) @ (if ak then ''k'' else [])"
  define P where "P = (if rk then key old @ '' '' else []) @ (if al then decimal (unat (limit new)) @ '' '' else [])
                   @ (if ak then key new @ '' '' else [])"
  have dist: "distinct (map letter tab)" using tab by (simp add: tab_ok_def)
  have Rsub: "set R \<subseteq> set tab" and Asub: "set A \<subseteq> set tab" by (auto simp: R_def A_def)
  have Rl: "\<forall>t \<in> set R. letter t \<notin> {CHR ''+'', CHR ''-'', CHR ''l'', CHR ''k''}"
    using tab by (auto simp: R_def tab_ok_def)
  have Al: "\<forall>t \<in> set A. letter t \<notin> {CHR ''+'', CHR ''-'', CHR ''l'', CHR ''k''}"
    using tab by (auto simp: A_def tab_ok_def)
  have lastX: "last (CHR ''-'' # X) = CHR ''-'' \<longleftrightarrow> X = []"
    unfolding X_def using Rl last_letters [of R "CHR ''-''" "CHR ''-''" rl rk] by auto
  have sfm0: "set_final_mode tab new old =
      (let m3 = CHR ''-'' # X;
           m4 = (if last m3 = CHR ''-'' then butlast m3 @ ''+'' else m3 @ ''+'');
           m7 = m4 @ Y
       in (if last m7 = CHR ''+'' then butlast m7 else m7, P))"
    unfolding set_final_mode_def removed_letters_def added_letters_def
      R_def [symmetric] A_def [symmetric] rl_def [symmetric] rk_def [symmetric]
      al_def [symmetric] ak_def [symmetric] X_def Y_def P_def Let_def
    by (cases rl; cases rk; cases al; cases ak) simp_all
  have sfm: "set_final_mode tab new old =
      (let m4 = (if X = [] then ''+'' else CHR ''-'' # X @ ''+''); m7 = m4 @ Y
       in (if last m7 = CHR ''+'' then butlast m7 else m7, P))"
    unfolding sfm0 Let_def lastX by (cases "X = []") simp_all
  have lastY: "Y \<noteq> [] \<Longrightarrow> last Y \<noteq> CHR ''+''"
    unfolding Y_def using Al by (cases A rule: rev_cases) (auto simp: last_append)
  have canon: "apply_delta tab True (fst (set_final_mode tab new old)) ps m =
               apply_delta tab False (X @ ''+'' @ Y) ps m" for ps m
  proof (cases "Y = []")
    case True
    then show ?thesis
      using apply_delta_trailing_plus [of tab False X ps m]
      by (cases "X = []") (simp_all add: sfm Let_def butlast_append)
  next
    case False
    then have "last (m4 @ Y) = last Y" for m4 by simp
    then show ?thesis
      using False lastY by (cases "X = []") (simp_all add: sfm Let_def)
  qed
  have ko: "CHR '' '' \<notin> set (key old)" and kn: "CHR '' '' \<notin> set (key new)"
    using o n by (simp_all add: mode_ok_def)
  have dec: "decimal k \<noteq> [] \<and> CHR '' '' \<notin> set (decimal k)" for k
    using decimal_nonempty [of k] decimal_digits [of "CHR '' ''" k] isdigit_not_space [of "CHR '' ''"]
    by auto
  have bits: "foldl (\<lambda>w t. w OR cmode t) (foldl (\<lambda>w t. w AND NOT (cmode t)) (mode old) R) A = mode new"
    unfolding R_def A_def
    using tab o n by (intro merged_bits) (auto simp: tab_ok_def mode_ok_def)
  have w1: "words (key old @ CHR '' '' # rest) = key old # words rest" if "key old \<noteq> []" for rest
    using that ko by (rule words_word)
  have w2: "words (key new @ CHR '' '' # rest) = key new # words rest" if "key new \<noteq> []" for rest
    using that kn by (rule words_word)
  have w3: "words (decimal k @ CHR '' '' # rest) = decimal k # words rest" for k rest
    using dec [of k] by (intro words_word) auto
  have keq: "\<not> rk \<Longrightarrow> \<not> ak \<Longrightarrow> key old = key new"
    using strcmp_eq_0D [of "key old" "key new"] by (auto simp: rk_def ak_def)
  have leq: "\<not> rl \<Longrightarrow> \<not> al \<Longrightarrow> limit old = limit new"
    by (auto simp: rl_def al_def)
  have rkD: "rk \<Longrightarrow> key old \<noteq> [] \<and> key new = []" by (simp add: rk_def)
  have akD: "ak \<Longrightarrow> key new \<noteq> []" by (simp add: ak_def)
  have rlD: "rl \<Longrightarrow> limit new = 0 \<and> \<not> al" by (simp add: rl_def al_def)
  have eqI: "mode a = mode new \<Longrightarrow> limit a = limit new \<Longrightarrow> key a = key new \<Longrightarrow> a = new" for a :: Mode
    by (rule Mode.equality) simp_all
  note fl = apply_delta_flags [OF dist Asub Al] apply_delta_flags [OF dist Asub Al, where rest = "[]", simplified]
  have step: "apply_delta tab False (X @ ''+'' @ Y) (words P) old = new"
    unfolding X_def Y_def append_assoc
    apply (subst apply_delta_flags [OF dist Rsub Rl])
    apply (cases rl; cases rk; cases al; cases ak)
    using keq leq rkD akD rlD
    apply (simp_all add: P_def fl w1 w2 w3 words_Nil atoi_decimal bits)
    done
  have "snd (set_final_mode tab new old) = P"
    by (simp add: sfm Let_def)
  then show ?thesis
    using step by (simp add: apply_change_def canon)
qed

text \<open>
  C5. The change from a mode to itself is empty: no letter and no parameter. For a mode
  table in order and two modes in order for it, reading the letters and parameters that
  \<open>set_final_mode\<close> writes for the change from the old mode to the new one, and applying
  them to the old mode, gives the new mode.
\<close>

theorem set_final_mode_round_trip:
  "set_final_mode tab M M = ([], []) \<and>
   (tab_ok tab \<and> mode_ok tab old \<and> mode_ok tab new \<longrightarrow>
      apply_change tab (set_final_mode tab new old) old = new)"
  using set_final_mode_same [of tab M] set_final_mode_applied [of tab old new] by blast

lemma ex_tab_ok: "tab_ok ex_tab"
  by (simp add: tab_ok_def ex_tab_def single_bit_def upt_rec)

theorem set_final_mode_round_trip_witness:
  "set_final_mode ex_tab \<lparr>mode = 0x28, limit = 5, key = ''b''\<rparr> \<lparr>mode = 0x28, limit = 5, key = ''b''\<rparr>
     = ([], []) \<and>
   tab_ok ex_tab \<and> mode_ok ex_tab \<lparr>mode = 0x24, limit = 0, key = ''a''\<rparr> \<and>
   mode_ok ex_tab \<lparr>mode = 0x28, limit = 5, key = ''b''\<rparr> \<and>
   apply_change ex_tab
     (set_final_mode ex_tab \<lparr>mode = 0x28, limit = 5, key = ''b''\<rparr>
        \<lparr>mode = 0x24, limit = 0, key = ''a''\<rparr>)
     \<lparr>mode = 0x24, limit = 0, key = ''a''\<rparr>
   = \<lparr>mode = 0x28, limit = 5, key = ''b''\<rparr>"
proof -
  have o: "mode_ok ex_tab \<lparr>mode = 0x24, limit = 0, key = ''a''\<rparr>"
    by (simp add: mode_ok_def tab_bits_def ex_tab_def)
  have n: "mode_ok ex_tab \<lparr>mode = 0x28, limit = 5, key = ''b''\<rparr>"
    by (simp add: mode_ok_def tab_bits_def ex_tab_def)
  show ?thesis
    using set_final_mode_round_trip
      [of ex_tab "\<lparr>mode = 0x28, limit = 5, key = ''b''\<rparr>"
          "\<lparr>mode = 0x24, limit = 0, key = ''a''\<rparr>" "\<lparr>mode = 0x28, limit = 5, key = ''b''\<rparr>"]
      ex_tab_ok o n
    by blast
qed

section \<open>The channel after the handler\<close>

lemma remove_a_mode_loop_members:
  "fst (remove_a_mode_loop E origin chname msk flag ms st) =
   map (\<lambda>m. m\<lparr>flags := flags m - {msk}\<rparr>) ms"
proof (induction ms arbitrary: st)
  case Nil
  then show ?case by simp
next
  case (Cons m ms)
  obtain a b c where st: "st = (a, b, c)" by (cases st) auto
  show ?case
    using Cons.IH by (simp add: st Let_def case_prod_beta)
qed

lemma remove_a_mode_chptr:
  "fst (remove_a_mode E c sp msk flag) =
   c\<lparr>members := map (\<lambda>m. m\<lparr>flags := flags m - {msk}\<rparr>) (members c)\<rparr>"
  using remove_a_mode_loop_members
    [of E "servername E sp" "ch_name c" msk flag "members c" "(''-'', [], [])"]
  by (simp add: remove_a_mode_def case_prod_beta)

lemma diff3: "A - {a} - {b} - {c} = A - {a, b, c}"
  by blast

lemma remove_our_modes_chptr:
  "fst (remove_our_modes E c sp) = c\<lparr>members := map strip_ohv (members c)\<rparr>"
proof -
  have "fst (remove_our_modes E c sp) =
        fst (remove_a_mode E (fst (remove_a_mode E (fst (remove_a_mode E c sp CHFL_CHANOP (CHR ''o'')))
               sp CHFL_HALFOP (CHR ''h''))) sp CHFL_VOICE (CHR ''v''))"
    by (simp add: remove_our_modes_def case_prod_beta)
  also have "\<dots> = c\<lparr>members := map strip_ohv (members c)\<rparr>"
    unfolding remove_a_mode_chptr
    by (simp add: strip_ohv_def comp_def diff3)
  finally show ?thesis .
qed

lemma remove_ban_loop_left: "fst (remove_ban_loop E prefix c bans st) = []"
  by (induction bans arbitrary: st) (simp_all add: Let_def)

lemma remove_ban_list_left: "fst (remove_ban_list E chptr sp lst c) = []"
  using remove_ban_loop_left
  by (cases lst) (simp_all add: remove_ban_list_def Let_def case_prod_beta)

lemma sjoin_lost_ts_chptr:
  "fst (sjoin_lost_ts E sp parv2 isnew oldts newts c) =
   c\<lparr>ch_name := (if isnew then ch_name c else strlcpy parv2 (CHANNELLEN E + 1)),
     members := clear_ban_cache_list (map strip_ohv (members c)),
     banlist := [], exceptlist := [], invexlist := [], invites := [], topic := [],
     topic_info := (if topic c \<noteq> [] then [] else topic_info c),
     topic_time := (if topic c \<noteq> [] then 0 else topic_time c)\<rparr>"
proof -
  define c0 where "c0 = (if \<not> isnew then c\<lparr>ch_name := strlcpy parv2 (CHANNELLEN E + 1)\<rparr> else c)"
  define c1 where "c1 = fst (remove_our_modes E c0 sp)"
  have c1: "c1 = c0\<lparr>members := map strip_ohv (members c0)\<rparr>"
    by (simp add: c1_def remove_our_modes_chptr)
  have "fst (sjoin_lost_ts E sp parv2 isnew oldts newts c) =
        (let c2 = c1\<lparr>banlist := [], exceptlist := [], invexlist := []\<rparr>;
             c3 = c2\<lparr>members := clear_ban_cache_list (members c2)\<rparr>;
             c4 = c3\<lparr>invites := []\<rparr>
         in if topic c4 \<noteq> [] then channel_set_topic c4 [] [] 0 else c4)"
    unfolding sjoin_lost_ts_def c0_def [symmetric] Let_def
    using remove_ban_list_left
    by (simp add: c1_def case_prod_beta)
  also have "\<dots> = c\<lparr>ch_name := (if isnew then ch_name c else strlcpy parv2 (CHANNELLEN E + 1)),
     members := clear_ban_cache_list (map strip_ohv (members c)),
     banlist := [], exceptlist := [], invexlist := [], invites := [], topic := [],
     topic_info := (if topic c \<noteq> [] then [] else topic_info c),
     topic_time := (if topic c \<noteq> [] then 0 else topic_time c)\<rparr>"
    by (simp add: c1 c0_def Let_def channel_set_topic_def)
  finally show ?thesis .
qed

lemma prepare_isnew: "p_isnew (sjoin_prepare E W sp parv md0) = (hash_find_channel W (parv ! 2) = None)"
  by (simp add: sjoin_prepare_def Let_def)

lemma prepare_newts:
  "p_newts (sjoin_prepare E W sp parv md0) =
   sjoin_newts E (strtoumax (parv ! 1))
     (creationtime (case hash_find_channel W (parv ! 2) of None \<Rightarrow> channel_make E (parv ! 2) | Some c \<Rightarrow> c))"
  by (simp add: sjoin_prepare_def Let_def)

lemma prepare_arb:
  "p_arb (sjoin_prepare E W sp parv md0) =
   sjoin_arbitrate (hash_find_channel W (parv ! 2) = None)
     (p_newts (sjoin_prepare E W sp parv md0))
     (creationtime (case hash_find_channel W (parv ! 2) of None \<Rightarrow> channel_make E (parv ! 2) | Some c \<Rightarrow> c))"
  by (simp add: sjoin_prepare_def Let_def)

lemma prepare_chptr:
  "p_chptr (sjoin_prepare E W sp parv md0) =
   (let c0 = (case hash_find_channel W (parv ! 2) of None \<Rightarrow> channel_make E (parv ! 2) | Some c \<Rightarrow> c);
        a = p_arb (sjoin_prepare E W sp parv md0);
        c2 = c0\<lparr>creationtime := new_creationtime a, chmode := sjoin_merge E a md0 (chmode c0)\<rparr>
    in if keep_our_modes a then c2
       else fst (sjoin_lost_ts E sp (parv ! 2) (hash_find_channel W (parv ! 2) = None)
                   (creationtime c0) (p_newts (sjoin_prepare E W sp parv md0)) c2))"
  by (simp add: sjoin_prepare_def Let_def)

lemma sjoin_grant_chptr: "sj_chptr (sjoin_grant E origin c nm st) = sj_chptr st"
  by (simp add: sjoin_grant_def Let_def)

lemma sjoin_grants_chptr: "sj_chptr (sjoin_grants E origin fl nm st) = sj_chptr st"
  by (simp add: sjoin_grants_def Let_def sjoin_grant_chptr)

lemma strip_sigils_flags:
  "fst (strip_sigils tok fl) \<subseteq> fl \<union> {CHFL_CHANOP, CHFL_HALFOP, CHFL_VOICE}"
  by (induction tok fl rule: strip_sigils.induct) auto

lemma sjoin_member_chptr_cases:
  "sj_chptr (sjoin_member E W sp keep ts pb tok st) = sj_chptr st \<or>
   (\<exists>u. find_person W (snd (strip_sigils tok {})) = Some u \<and> cl_from u = cl_from sp \<and>
        \<not> IsMember u (sj_chptr st) \<and>
        sj_chptr (sjoin_member E W sp keep ts pb tok st) =
          add_user_to_channel (sj_chptr st) u (if keep then fst (strip_sigils tok {}) else {}))"
  by (auto simp: sjoin_member_def Let_def sjoin_grants_chptr sjoin_join_def sjoin_relay_def
        case_prod_beta split: option.splits)

lemma sjoin_member_chptr:
  "\<exists>new. sj_chptr (sjoin_member E W sp keep ts pb tok st) =
           (sj_chptr st)\<lparr>members := new @ members (sj_chptr st)\<rparr> \<and>
         (\<forall>m \<in> set new. \<not> IsMember (client_p m) (sj_chptr st) \<and>
             flags m \<subseteq> {CHFL_CHANOP, CHFL_HALFOP, CHFL_VOICE} \<and> (\<not> keep \<longrightarrow> flags m = {}))"
proof -
  consider (same) "sj_chptr (sjoin_member E W sp keep ts pb tok st) = sj_chptr st"
    | (add) u where "\<not> IsMember u (sj_chptr st)"
        "sj_chptr (sjoin_member E W sp keep ts pb tok st) =
          add_user_to_channel (sj_chptr st) u (if keep then fst (strip_sigils tok {}) else {})"
    using sjoin_member_chptr_cases [of E W sp keep ts pb tok st] by blast
  then show ?thesis
  proof cases
    case same
    then show ?thesis by (intro exI [of _ "[]"]) simp
  next
    case (add u)
    show ?thesis
      using add strip_sigils_flags [of tok "{}"]
      by (intro exI [of _ "[\<lparr>client_p = u, flags = (if keep then fst (strip_sigils tok {}) else {})\<rparr>]"])
         (simp add: add_user_to_channel_def)
  qed
qed

lemma sjoin_members_chptr:
  "\<exists>new. sj_chptr (sjoin_members E W sp keep ts pb toks st) =
           (sj_chptr st)\<lparr>members := new @ members (sj_chptr st)\<rparr> \<and>
         (\<forall>m \<in> set new. \<not> IsMember (client_p m) (sj_chptr st) \<and>
             flags m \<subseteq> {CHFL_CHANOP, CHFL_HALFOP, CHFL_VOICE} \<and> (\<not> keep \<longrightarrow> flags m = {}))"
proof (induction toks arbitrary: st)
  case Nil
  show ?case by (intro exI [of _ "[]"]) simp
next
  case (Cons tok toks)
  define st1 where "st1 = sjoin_member E W sp keep ts pb tok st"
  obtain n1 where n1: "sj_chptr st1 = (sj_chptr st)\<lparr>members := n1 @ members (sj_chptr st)\<rparr>"
    "\<forall>m \<in> set n1. \<not> IsMember (client_p m) (sj_chptr st) \<and>
             flags m \<subseteq> {CHFL_CHANOP, CHFL_HALFOP, CHFL_VOICE} \<and> (\<not> keep \<longrightarrow> flags m = {})"
    using sjoin_member_chptr [of E W sp keep ts pb tok st] unfolding st1_def by blast
  obtain n2 where n2: "sj_chptr (sjoin_members E W sp keep ts pb toks st1) =
           (sj_chptr st1)\<lparr>members := n2 @ members (sj_chptr st1)\<rparr>"
    "\<forall>m \<in> set n2. \<not> IsMember (client_p m) (sj_chptr st1) \<and>
             flags m \<subseteq> {CHFL_CHANOP, CHFL_HALFOP, CHFL_VOICE} \<and> (\<not> keep \<longrightarrow> flags m = {})"
    using Cons.IH [of st1] by blast
  have "\<forall>m \<in> set n2. \<not> IsMember (client_p m) (sj_chptr st)"
    using n2(2) n1(1) by (auto simp: IsMember_def)
  then show ?case
    using n1 n2 by (intro exI [of _ "n2 @ n1"]) (auto simp: st1_def [symmetric])
qed

lemma sjoin_member_joined:
  assumes "find_person W (snd (strip_sigils tok {})) = Some u" "cl_from u = cl_from sp"
  shows "IsMember u (sj_chptr (sjoin_member E W sp keep ts pb tok st))"
  using assms
  by (auto simp: sjoin_member_def Let_def sjoin_grants_chptr sjoin_join_def sjoin_relay_def
        case_prod_beta IsMember_def add_user_to_channel_def)

lemma sjoin_members_mono:
  "IsMember u (sj_chptr st) \<Longrightarrow> IsMember u (sj_chptr (sjoin_members E W sp keep ts pb toks st))"
  using sjoin_members_chptr [of E W sp keep ts pb toks st] by (auto simp: IsMember_def)

lemma sjoin_members_joined:
  assumes "tok \<in> set toks" "find_person W (snd (strip_sigils tok {})) = Some u"
    "cl_from u = cl_from sp"
  shows "IsMember u (sj_chptr (sjoin_members E W sp keep ts pb toks st))"
  using assms
proof (induction toks arbitrary: st)
  case Nil
  then show ?case by simp
next
  case (Cons t toks)
  show ?case
  proof (cases "t = tok")
    case True
    then show ?thesis
      using Cons.prems sjoin_member_joined [of W tok u sp E keep ts pb st] sjoin_members_mono
      by simp
  next
    case False
    then show ?thesis using Cons by simp
  qed
qed

lemma ms_sjoin_accepted:
  assumes "is_server sp" "channel_check_name E (parv ! 2)"
    "parse_modes E parv (parv ! 3) empty_mode 0 = Some (md0, args)"
  shows "ms_sjoin E W sp parv = sjoin_body E W sp parv md0 args"
  using assms by (simp add: ms_sjoin_def)

lemma sjoin_loop_chptr:
  "\<exists>new. sj_chptr (sjoin_loop E W sp ml pr) = (p_chptr pr)\<lparr>members := new @ members (p_chptr pr)\<rparr> \<and>
         (\<forall>m \<in> set new. \<not> IsMember (client_p m) (p_chptr pr) \<and>
             flags m \<subseteq> {CHFL_CHANOP, CHFL_HALFOP, CHFL_VOICE} \<and>
             (\<not> keep_new_modes (p_arb pr) \<longrightarrow> flags m = {}))"
  unfolding sjoin_loop_def
  using sjoin_members_chptr [of E W sp "keep_new_modes (p_arb pr)" "tstosend (p_arb pr)"
      "p_parabuf pr" "words ml"
      "\<lparr>sj_chptr = p_chptr pr,
        sj_uid_buf = sjoin_header sp (tstosend (p_arb pr)) (p_chptr pr) (cstr (p_modebuf pr)) (p_parabuf pr),
        sj_modebuf = poke (p_modebuf pr) 0 (CHR ''+''), sj_mbuf = 1,
        sj_para = [], sj_out = p_out pr\<rparr>"]
  by simp

lemma sjoin_loop_joined:
  assumes "tok \<in> set (words ml)" "find_person W (snd (strip_sigils tok {})) = Some u"
    "cl_from u = cl_from sp"
  shows "IsMember u (sj_chptr (sjoin_loop E W sp ml pr))"
  unfolding sjoin_loop_def using assms by (rule sjoin_members_joined)

lemma sjoin_final_shape:
  "\<exists>new. sjoin_final E W sp parv md0 args =
           (p_chptr (sjoin_prepare E W sp parv md0))
             \<lparr>members := new @ members (p_chptr (sjoin_prepare E W sp parv md0))\<rparr> \<and>
         (\<forall>m \<in> set new. \<not> IsMember (client_p m) (p_chptr (sjoin_prepare E W sp parv md0)) \<and>
             flags m \<subseteq> {CHFL_CHANOP, CHFL_HALFOP, CHFL_VOICE} \<and>
             (\<not> keep_new_modes (p_arb (sjoin_prepare E W sp parv md0)) \<longrightarrow> flags m = {}))"
proof (cases "sjoin_too_long E sp (sjoin_prepare E W sp parv md0)")
  case True
  then show ?thesis
    by (intro exI [of _ "[]"]) (simp add: sjoin_final_def)
next
  case False
  then show ?thesis
    using sjoin_loop_chptr [of E W sp "parv ! (args + 4)" "sjoin_prepare E W sp parv md0"]
    by (simp add: sjoin_final_def)
qed

lemma sjoin_channel_existing:
  assumes "is_server sp" "channel_check_name E (parv ! 2)"
    "parse_modes E parv (parv ! 3) empty_mode 0 = Some (md0, args)"
    "hash_find_channel W (parv ! 2) = Some c0"
  shows "sjoin_channel E W sp parv = Some (sjoin_final E W sp parv md0 args)"
  using assms(4)
  by (simp add: sjoin_channel_def ms_sjoin_accepted [OF assms(1-3)] sjoin_body_def Let_def
      sjoin_final_def prepare_isnew sjoin_store_def)

lemma strlcpy_short: "length s \<le> n \<Longrightarrow> strlcpy s (Suc n) = s"
  by (simp add: strlcpy_def)

lemma prepare_name_new:
  assumes "hash_find_channel W (parv ! 2) = None" "length (parv ! 2) \<le> CHANNELLEN E"
  shows "ch_name (p_chptr (sjoin_prepare E W sp parv md0)) = parv ! 2"
proof -
  have a: "keep_our_modes (p_arb (sjoin_prepare E W sp parv md0))"
    using assms(1) by (simp add: prepare_arb sjoin_arbitrate_def)
  show ?thesis
    using assms a by (simp add: prepare_chptr Let_def channel_make_def strlcpy_short)
qed

lemma sjoin_loop_name: "ch_name (sj_chptr (sjoin_loop E W sp ml pr)) = ch_name (p_chptr pr)"
  using sjoin_loop_chptr [of E W sp ml pr] by auto

lemma sjoin_channel_new:
  assumes "is_server sp" "channel_check_name E (parv ! 2)"
    "parse_modes E parv (parv ! 3) empty_mode 0 = Some (md0, args)"
    "hash_find_channel W (parv ! 2) = None" "length (parv ! 2) \<le> CHANNELLEN E"
  shows "sjoin_channel E W sp parv =
         (if \<not> sjoin_too_long E sp (sjoin_prepare E W sp parv md0) \<and>
             members (sjoin_final E W sp parv md0 args) = []
          then None else Some (sjoin_final E W sp parv md0 args))"
proof -
  have n: "ch_name (p_chptr (sjoin_prepare E W sp parv md0)) = parv ! 2"
    using assms(4,5) by (rule prepare_name_new)
  have w: "channels W (hash_key (parv ! 2)) = None"
    using assms(4) by (simp add: hash_find_channel_def)
  show ?thesis
    using w assms(4)
    by (simp add: sjoin_channel_def ms_sjoin_accepted [OF assms(1-3)] sjoin_body_def Let_def
      sjoin_final_def prepare_isnew sjoin_store_def channel_free_def sjoin_loop_name n)
qed

lemma strcmp_swap: "strcmp a b < 0 \<Longrightarrow> 0 < strcmp b a"
  by (induction a b rule: strcmp.induct) (auto split: if_splits)

lemma strcmp_Nil_right: "0 \<le> strcmp a []"
  by (cases a) auto

lemma sjoin_merge_empty:
  assumes "keep_our_modes a" "keep_new_modes a"
  shows "sjoin_merge E a md0 empty_mode = md0"
proof -
  have "\<not> strcmp (key md0) [] < 0" using strcmp_Nil_right [of "key md0"] by simp
  then show ?thesis
    using assms by (simp add: sjoin_merge_def empty_mode_def)
qed

lemma sjoin_channel_new_joined:
  assumes "is_server sp" "channel_check_name E (parv ! 2)"
    "parse_modes E parv (parv ! 3) empty_mode 0 = Some (md0, args)"
    "hash_find_channel W (parv ! 2) = None" "length (parv ! 2) \<le> CHANNELLEN E"
    "tok \<in> set (words (parv ! (args + 4)))"
    "find_person W (snd (strip_sigils tok {})) = Some u" "cl_from u = cl_from sp"
  shows "sjoin_channel E W sp parv = Some (sjoin_final E W sp parv md0 args)"
proof -
  have "members (sjoin_final E W sp parv md0 args) \<noteq> []"
    if "\<not> sjoin_too_long E sp (sjoin_prepare E W sp parv md0)"
    using that sjoin_loop_joined [OF assms(6-8), of E "sjoin_prepare E W sp parv md0"]
    by (auto simp: sjoin_final_def IsMember_def)
  then show ?thesis
    using sjoin_channel_new [OF assms(1-5)] by auto
qed

lemma sjoin_final_new:
  assumes "hash_find_channel W (parv ! 2) = None"
  shows "creationtime (sjoin_final E W sp parv md0 args)
           = sjoin_newts E (strtoumax (parv ! 1)) (CurrentTime E) \<and>
         chmode (sjoin_final E W sp parv md0 args) = md0"
proof -
  define pr where "pr = sjoin_prepare E W sp parv md0"
  have a: "p_arb pr = \<lparr>keep_our_modes = True, keep_new_modes = True,
       new_creationtime = sjoin_newts E (strtoumax (parv ! 1)) (CurrentTime E),
       tstosend = sjoin_newts E (strtoumax (parv ! 1)) (CurrentTime E)\<rparr>"
    using assms
    by (simp add: pr_def prepare_arb prepare_newts sjoin_arbitrate_def channel_make_def)
  have p: "creationtime (p_chptr pr) = sjoin_newts E (strtoumax (parv ! 1)) (CurrentTime E)
           \<and> chmode (p_chptr pr) = md0"
    using assms a
    by (simp add: pr_def prepare_chptr Let_def sjoin_merge_empty channel_make_def)
  have "creationtime (sjoin_final E W sp parv md0 args) = creationtime (p_chptr pr) \<and>
        chmode (sjoin_final E W sp parv md0 args) = chmode (p_chptr pr)"
    using sjoin_final_shape [of E W sp parv md0 args] by (auto simp: pr_def)
  then show ?thesis using p by simp
qed

text \<open>
  C8, as amended. An SJOIN that the handler accepts (it comes from a server, the name is
  valid and not cut, every \<open>k\<close> and \<open>l\<close> has its argument) and that names a channel
  not yet in the store: if the channel is in the store afterwards, its creation time is
  the timestamp of the message after the bogus-timestamp rule (the incoming value itself
  unless \<open>ignore_bogus_ts\<close> is set and the value is below 800000000), and its mode is
  exactly the mode of the message.
\<close>

theorem sjoin_new_channel:
  assumes "is_server sp" "channel_check_name E (parv ! 2)"
    "parse_modes E parv (parv ! 3) empty_mode 0 = Some (md0, args)"
    "hash_find_channel W (parv ! 2) = None" "length (parv ! 2) \<le> CHANNELLEN E"
    "sjoin_channel E W sp parv = Some c"
  shows "creationtime c = sjoin_newts E (strtoumax (parv ! 1)) (CurrentTime E) \<and>
         chmode c = md0 \<and>
         (\<not> ignore_bogus_ts E \<or> 800000000 \<le> strtoumax (parv ! 1)
            \<longrightarrow> creationtime c = strtoumax (parv ! 1))"
proof -
  have c: "c = sjoin_final E W sp parv md0 args"
    using sjoin_channel_new [OF assms(1-5)] assms(6) by (simp split: if_splits)
  show ?thesis
    using sjoin_final_new [OF assms(4), of E sp md0 args] c
    by (auto simp: sjoin_newts_def)
qed

lemma ex_parse_nt:
  "parse_modes E (ex_sjoin ts ''+nt'') (ex_sjoin ts ''+nt'' ! 3) empty_mode 0
   = Some (\<lparr>mode = 0x28, limit = 0, key = []\<rparr>, 0)" if "cmode_tab E = ex_tab"
  using that by (simp add: ex_sjoin_def cmode_map_def ex_tab_def empty_mode_def)

lemma words_single:
  assumes "w \<noteq> []" "CHR '' '' \<notin> set w"
  shows "words w = [w]"
proof -
  have all: "\<forall>x \<in> set w. x \<noteq> CHR '' ''" using assms(2) by auto
  have d1: "dropWhile (\<lambda>c. c = CHR '' '') w = w"
    using assms by (cases w) auto
  have t: "takeWhile (\<lambda>c. c \<noteq> CHR '' '') w = w"
    using all by (simp only: takeWhile_eq_all_conv)
  have d2: "dropWhile (\<lambda>c. c \<noteq> CHR '' '') w = []"
    using all by simp
  show ?thesis
    unfolding words.simps [of w] Let_def d1 t d2
    using assms(1) by (simp add: words_Nil)
qed

lemma ex_words: "words ''@0ABAAAAAA +0ABAAAAAB'' = [''@0ABAAAAAA'', ''+0ABAAAAAB'']"
proof -
  have "words (''@0ABAAAAAA'' @ CHR '' '' # ''+0ABAAAAAB'') = ''@0ABAAAAAA'' # words ''+0ABAAAAAB''"
    by (rule words_word) simp_all
  moreover have "words ''+0ABAAAAAB'' = [''+0ABAAAAAB'']"
    by (rule words_single) simp_all
  ultimately show ?thesis by simp
qed

lemma ex_hash_key: "hash_key ''#a'' = ''#a''"
  by (simp add: hash_key_def ToLower_def)

lemma ex_ts_1000: "strtoumax ''1000'' = 1000"
  by (simp add: strtoumax_def scan_number_def isspace_def isdigit_def digits_val_def digit_val_def)

theorem sjoin_new_channel_witness:
  "\<exists>c. sjoin_channel ex_env ex_world ex_server (ex_sjoin ''1000'' ''+nt'') = Some c \<and>
       creationtime c = 1000 \<and> chmode c = \<lparr>mode = 0x28, limit = 0, key = []\<rparr>"
proof -
  have h1: "is_server ex_server" by (simp add: ex_server_def)
  have h2: "channel_check_name ex_env (ex_sjoin ''1000'' ''+nt'' ! 2)"
    by (simp add: ex_env_def ex_sjoin_def)
  have h3: "parse_modes ex_env (ex_sjoin ''1000'' ''+nt'') (ex_sjoin ''1000'' ''+nt'' ! 3) empty_mode 0
            = Some (\<lparr>mode = 0x28, limit = 0, key = []\<rparr>, 0)"
    by (rule ex_parse_nt) (simp add: ex_env_def)
  have h4: "hash_find_channel ex_world (ex_sjoin ''1000'' ''+nt'' ! 2) = None"
    by (simp add: hash_find_channel_def ex_world_def ex_sjoin_def)
  have h5: "length (ex_sjoin ''1000'' ''+nt'' ! 2) \<le> CHANNELLEN ex_env"
    by (simp add: ex_env_def ex_sjoin_def)
  have h6: "''@0ABAAAAAA'' \<in> set (words (ex_sjoin ''1000'' ''+nt'' ! (0 + 4)))"
    by (simp add: ex_sjoin_def ex_words)
  have h7: "find_person ex_world (snd (strip_sigils ''@0ABAAAAAA'' {}))
            = Some (ex_user ''alice'' ''0ABAAAAAA'' False)"
    by (simp add: find_person_def ex_world_def)
  have h8: "cl_from (ex_user ''alice'' ''0ABAAAAAA'' False) = cl_from ex_server"
    by (simp add: ex_user_def ex_server_def)
  have ch: "sjoin_channel ex_env ex_world ex_server (ex_sjoin ''1000'' ''+nt'')
            = Some (sjoin_final ex_env ex_world ex_server (ex_sjoin ''1000'' ''+nt'')
                      \<lparr>mode = 0x28, limit = 0, key = []\<rparr> 0)"
    using sjoin_channel_new_joined [OF h1 h2 h3 h4 h5 h6 h7 h8] .
  have ts: "sjoin_newts ex_env (strtoumax (ex_sjoin ''1000'' ''+nt'' ! 1)) (CurrentTime ex_env) = 1000"
    by (simp add: sjoin_newts_def ex_env_def ex_sjoin_def ex_ts_1000)
  show ?thesis
    using sjoin_new_channel [OF h1 h2 h3 h4 h5 ch] ch ts by simp
qed

lemma sjoin_merge_both:
  assumes "keep_our_modes a" "keep_new_modes a" "length (key old) \<le> KEYLEN E"
  shows "mode (sjoin_merge E a md0 old) = mode md0 OR mode old \<and>
         limit (sjoin_merge E a md0 old) = max (limit md0) (limit old) \<and>
         key (sjoin_merge E a md0 old) = (if strcmp (key md0) (key old) < 0 then key old else key md0)"
  using assms by (auto simp: sjoin_merge_def strlcpy_short max_def)

lemma IsMember_map: "IsMember u c = (u \<in> set (map client_p (members c)))"
  by (auto simp: IsMember_def)

lemma cleared_clients:
  "map client_p (clear_ban_cache_list (map strip_ohv ms)) = map client_p ms"
  by (induction ms) (simp_all add: clear_ban_cache_list_def strip_ohv_def)

lemma sjoin_final_kept:
  assumes "hash_find_channel W (parv ! 2) = Some c0"
    "newts = sjoin_newts E (strtoumax (parv ! 1)) (creationtime c0)"
    "newts = 0 \<or> creationtime c0 = 0 \<or> newts = creationtime c0"
    "length (key (chmode c0)) \<le> KEYLEN E"
  shows "mode (chmode (sjoin_final E W sp parv md0 args)) = mode md0 OR mode (chmode c0) \<and>
         limit (chmode (sjoin_final E W sp parv md0 args)) = max (limit md0) (limit (chmode c0)) \<and>
         key (chmode (sjoin_final E W sp parv md0 args))
           = (if strcmp (key md0) (key (chmode c0)) < 0 then key (chmode c0) else key md0)"
proof -
  define pr where "pr = sjoin_prepare E W sp parv md0"
  have a: "keep_our_modes (p_arb pr) \<and> keep_new_modes (p_arb pr)"
    using assms(1,2,3)
    by (auto simp: pr_def prepare_arb prepare_newts sjoin_arbitrate_def)
  have p: "chmode (p_chptr pr) = sjoin_merge E (p_arb pr) md0 (chmode c0)"
    using assms(1) a by (simp add: pr_def prepare_chptr Let_def)
  have "chmode (sjoin_final E W sp parv md0 args) = chmode (p_chptr pr)"
    using sjoin_final_shape [of E W sp parv md0 args] by (auto simp: pr_def)
  then show ?thesis
    using p sjoin_merge_both [of "p_arb pr" "chmode c0" E md0] a assms(4) by simp
qed

lemma sjoin_final_lost:
  assumes "hash_find_channel W (parv ! 2) = Some c0"
    "newts = sjoin_newts E (strtoumax (parv ! 1)) (creationtime c0)"
    "newts \<noteq> 0" "creationtime c0 \<noteq> 0" "newts < creationtime c0"
  shows "\<exists>new. sjoin_final E W sp parv md0 args =
           c0\<lparr>ch_name := strlcpy (parv ! 2) (CHANNELLEN E + 1), creationtime := newts,
              chmode := md0,
              members := new @ clear_ban_cache_list (map strip_ohv (members c0)),
              banlist := [], exceptlist := [], invexlist := [], invites := [], topic := [],
              topic_info := (if topic c0 \<noteq> [] then [] else topic_info c0),
              topic_time := (if topic c0 \<noteq> [] then 0 else topic_time c0)\<rparr> \<and>
         (\<forall>m \<in> set new. \<not> IsMember (client_p m) c0 \<and>
              flags m \<subseteq> {CHFL_CHANOP, CHFL_HALFOP, CHFL_VOICE})"
proof -
  define pr where "pr = sjoin_prepare E W sp parv md0"
  have a: "p_arb pr = \<lparr>keep_our_modes = False, keep_new_modes = True,
                        new_creationtime = newts, tstosend = newts\<rparr>"
    using assms by (auto simp: pr_def prepare_arb prepare_newts sjoin_arbitrate_def)
  have n: "p_newts pr = newts"
    using assms(1,2) by (simp add: pr_def prepare_newts)
  have p: "p_chptr pr =
           c0\<lparr>ch_name := strlcpy (parv ! 2) (CHANNELLEN E + 1), creationtime := newts,
              chmode := md0,
              members := clear_ban_cache_list (map strip_ohv (members c0)),
              banlist := [], exceptlist := [], invexlist := [], invites := [], topic := [],
              topic_info := (if topic c0 \<noteq> [] then [] else topic_info c0),
              topic_time := (if topic c0 \<noteq> [] then 0 else topic_time c0)\<rparr>"
    using assms(1) a n
    by (simp add: pr_def [symmetric] prepare_chptr [of E W sp parv md0, folded pr_def] Let_def
        sjoin_lost_ts_chptr sjoin_merge_def)
  have im: "IsMember u (p_chptr pr) = IsMember u c0" for u
    unfolding IsMember_map by (simp add: p cleared_clients)
  obtain new where new: "sjoin_final E W sp parv md0 args =
           (p_chptr pr)\<lparr>members := new @ members (p_chptr pr)\<rparr>"
    "\<forall>m \<in> set new. \<not> IsMember (client_p m) (p_chptr pr) \<and>
             flags m \<subseteq> {CHFL_CHANOP, CHFL_HALFOP, CHFL_VOICE}"
    using sjoin_final_shape [of E W sp parv md0 args] unfolding pr_def by blast
  show ?thesis
    using new im by (intro exI [of _ new]) (simp add: p)
qed

lemma sjoin_final_newer:
  assumes "hash_find_channel W (parv ! 2) = Some c0"
    "newts = sjoin_newts E (strtoumax (parv ! 1)) (creationtime c0)"
    "newts \<noteq> 0" "creationtime c0 \<noteq> 0" "creationtime c0 < newts"
  shows "\<exists>new. sjoin_final E W sp parv md0 args = c0\<lparr>members := new @ members c0\<rparr> \<and>
         (\<forall>m \<in> set new. \<not> IsMember (client_p m) c0 \<and> flags m = {})"
proof -
  define pr where "pr = sjoin_prepare E W sp parv md0"
  have a: "p_arb pr = \<lparr>keep_our_modes = True, keep_new_modes = False,
                        new_creationtime = creationtime c0, tstosend = creationtime c0\<rparr>"
    using assms by (auto simp: pr_def prepare_arb prepare_newts sjoin_arbitrate_def)
  have p: "p_chptr pr = c0"
    using assms(1) a
    by (simp add: prepare_chptr [of E W sp parv md0, folded pr_def] Let_def sjoin_merge_def)
  show ?thesis
    using sjoin_final_shape [of E W sp parv md0 args] a p unfolding pr_def [symmetric]
    by auto
qed

end
